theory Spec2Isabelle
  imports Complex_Main
begin

section \<open>Values of the Python program\<close>

text \<open>
  The \<open>claims\<close> request parameter is decoded JSON: per-claim metadata is \<open>null\<close> or an
  object such as \<open>{"value": "X"}\<close>.  \<open>JObj\<close> holds the entries of a Python dict as an
  association list whose keys are distinct.  Numbers are idealised as reals (Python
  compares \<open>int\<close> and \<open>float\<close> by value).
\<close>

datatype json =
    JNull
  | JBool bool
  | JNum real
  | JStr string
  | JArr "json list"
  | JObj "(string \<times> json) list"

text \<open>Python's \<open>==\<close> on such values: \<open>True == 1\<close>, lists element by element, dicts by
  key set and values, and values of different kinds are unequal.\<close>

fun py_eq :: "json \<Rightarrow> json \<Rightarrow> bool"
  and py_eq_list :: "json list \<Rightarrow> json list \<Rightarrow> bool"
  and py_eq_items :: "(string \<times> json) list \<Rightarrow> (string \<times> json) list \<Rightarrow> bool" where
  "py_eq JNull b = (case b of JNull \<Rightarrow> True | _ \<Rightarrow> False)"
| "py_eq (JBool p) b =
     (case b of JBool q \<Rightarrow> p = q | JNum y \<Rightarrow> (if p then 1 else 0) = y | _ \<Rightarrow> False)"
| "py_eq (JNum x) b =
     (case b of JNum y \<Rightarrow> x = y | JBool q \<Rightarrow> x = (if q then 1 else 0) | _ \<Rightarrow> False)"
| "py_eq (JStr s) b = (case b of JStr t \<Rightarrow> s = t | _ \<Rightarrow> False)"
| "py_eq (JArr xs) b = (case b of JArr ys \<Rightarrow> py_eq_list xs ys | _ \<Rightarrow> False)"
| "py_eq (JObj xs) b =
     (case b of
        JObj ys \<Rightarrow> length xs = length ys \<and> py_eq_items xs ys
      | _ \<Rightarrow> False)"
| "py_eq_list [] ys = (ys = [])"
| "py_eq_list (x # xs) ys =
     (case ys of [] \<Rightarrow> False | y # ys' \<Rightarrow> py_eq x y \<and> py_eq_list xs ys')"
| "py_eq_items [] ys = True"
| "py_eq_items (kv # xs) ys =
     ((case map_of ys (fst kv) of None \<Rightarrow> False | Some w \<Rightarrow> py_eq (snd kv) w)
      \<and> py_eq_items xs ys)"

text \<open>Python's truth value of a decoded JSON value (\<open>None\<close>, \<open>False\<close>, \<open>0\<close>, \<open>''\<close>, \<open>[]\<close>
  and \<open>{}\<close> are false).\<close>

fun truthy :: "json \<Rightarrow> bool" where
  "truthy JNull = False"
| "truthy (JBool b) = b"
| "truthy (JNum x) = (x \<noteq> 0)"
| "truthy (JStr s) = (s \<noteq> [])"
| "truthy (JArr xs) = (xs \<noteq> [])"
| "truthy (JObj kvs) = (kvs \<noteq> [])"

text \<open>\<open>a or b\<close>.\<close>

definition py_or :: "json \<Rightarrow> json \<Rightarrow> json" where
  "py_or a b = (if truthy a then a else b)"

text \<open>The truth value of an optional string (\<open>None\<close> and \<open>''\<close> are false).\<close>

fun truthy_str :: "string option \<Rightarrow> bool" where
  "truthy_str None = False"
| "truthy_str (Some s) = (s \<noteq> [])"

text \<open>\<open>sep.join(xs)\<close>.\<close>

fun join :: "string \<Rightarrow> string list \<Rightarrow> string" where
  "join sep [] = []"
| "join sep [x] = x"
| "join sep (x # y # ys) = x @ sep @ join sep (y # ys)"

text \<open>\<open>'\'{}\''.format(s)\<close>: the string between single quotes.\<close>

definition quoted :: "string \<Rightarrow> string" where
  "quoted s = CHR 0x27 # s @ [CHR 0x27]"

section \<open>Messages\<close>

text \<open>
  The \<open>claims\<close> member of an authentication request (\<open>ClaimsRequest\<close>): the optional
  members \<open>id_token\<close> and \<open>userinfo\<close>, each a dict from claim name to per-claim metadata.
\<close>

record claims_request =
  cr_id_token :: "(string \<rightharpoonup> json) option"
  cr_userinfo :: "(string \<rightharpoonup> json) option"

text \<open>
  An \<open>AuthorizationRequest\<close> message is dict-like: a parameter that was not sent is
  absent (\<open>None\<close> here), \<open>'k' in request\<close> is \<open>k request \<noteq> None\<close>, and \<open>request['k']\<close>
  raises \<open>KeyError\<close> when absent.
\<close>

record auth_request =
  response_type :: "string list option"
  client_id :: "string option"
  redirect_uri :: "string option"
  scope :: "string list option"
  state :: "string option"
  nonce :: "string option"
  claims :: "claims_request option"

text \<open>The exception \<open>InvalidAuthenticationRequest(message, parsed_request, oauth_error)\<close>.\<close>

record invalid_authentication_request =
  message :: string
  request :: auth_request
  oauth_error :: "string option"

text \<open>
  Everything the code raises.  \<open>AuthorizationError\<close> keeps its format template and the
  values interpolated into it, which are not strings.  \<open>OtherError\<close> is an exception
  raised by a collaborator or by the \<open>oic\<close> library and propagated unchanged.
\<close>

datatype error =
    InvalidAuthenticationRequest invalid_authentication_request
  | AuthorizationError string "json list"
  | InvalidTokenRequest string string
  | InvalidUserinfoRequest string
  | KeyError string
  | IndexError
  | TypeError string
  | ValueError string
  | OtherError string

definition getitem :: "string \<Rightarrow> 'a option \<Rightarrow> error + 'a" where
  "getitem k v = (case v of None \<Rightarrow> Inl (KeyError k) | Some x \<Rightarrow> Inr x)"

text \<open>What \<open>message.verify()\<close> of the \<open>oic\<close> library does: return, or raise.\<close>

datatype verify_outcome =
    Verified
  | MissingRequiredValue string
  | MissingRequiredAttribute string
  | VerifyRaised string

text \<open>
  The functions of the \<open>oic\<close>, \<open>jwkest\<close>, \<open>urllib\<close> and \<open>time\<close> libraries and of the
  sibling modules that the provider calls; they are not part of \<open>provider.py\<close> and are
  taken as parameters.
  \<^item> \<open>request_verify\<close>: \<open>AuthorizationRequest.verify\<close>;
  \<^item> \<open>deserialize\<close>: \<open>AuthorizationRequest().deserialize\<close>;
  \<^item> \<open>error_response_request error error_message location fragment_enc\<close>:
    \<open>ErrorResponse(error=.., error_message=..).request(location, fragment_enc)\<close>;
  \<^item> \<open>scope2claims\<close>, \<open>left_hash\<close>, \<open>netloc\<close> (\<open>urlparse(uri).netloc\<close>);
  \<^item> \<open>token_request_from_dict\<close>, \<open>token_request_verify\<close>: \<open>AccessTokenRequest\<close>;
  \<^item> \<open>extract_bearer_token_from_http_request\<close>;
  \<^item> \<open>str_split\<close>: Python's \<open>str.split()\<close>;
  \<^item> \<open>id_token_message kwargs\<close>: the constructor \<open>IdToken(**kwargs)\<close> of the \<open>oic\<close>
    library, which checks and converts the keyword arguments by the schema of the
    message: the claims that the message holds, or the exception of the constructor;
  \<^item> \<open>message_setitem message key value\<close>: \<open>message[key] = value\<close> on such a message;
  \<^item> \<open>time_time n\<close>: what the \<open>n\<close>-th call of \<open>time.time()\<close> returns, a float that
    is idealised as a real number.
\<close>

record library =
  request_verify :: "auth_request \<Rightarrow> verify_outcome"
  deserialize :: "string \<Rightarrow> auth_request"
  error_response_request :: "string \<Rightarrow> string \<Rightarrow> string \<Rightarrow> bool \<Rightarrow> string"
  scope2claims :: "string list \<Rightarrow> (string \<rightharpoonup> json)"
  left_hash :: "string \<Rightarrow> string \<Rightarrow> string"
  netloc :: "string \<Rightarrow> string"
  token_request_from_dict :: "(string \<rightharpoonup> string) \<Rightarrow> (string \<rightharpoonup> string)"
  token_request_verify :: "(string \<rightharpoonup> string) \<Rightarrow> verify_outcome"
  extract_bearer_token_from_http_request ::
    "string option \<Rightarrow> (string \<rightharpoonup> string) option \<Rightarrow> error + string"
  str_split :: "string \<Rightarrow> string list"
  id_token_message :: "(string \<rightharpoonup> json) \<Rightarrow> error + (string \<rightharpoonup> json)"
  message_setitem :: "(string \<rightharpoonup> json) \<Rightarrow> string \<Rightarrow> json \<Rightarrow> error + (string \<rightharpoonup> json)"
  time_time :: "nat \<Rightarrow> real"

section \<open>Encoding of the response and error redirects\<close>

definition should_fragment_encode :: "auth_request \<Rightarrow> error + bool" where
  "should_fragment_encode authentication_request =
     (case getitem ''response_type'' (response_type authentication_request) of
        Inl e \<Rightarrow> Inl e
      | Inr rt \<Rightarrow> if rt = [''code''] then Inr False else Inr True)"

definition to_error_url :: "library \<Rightarrow> invalid_authentication_request \<Rightarrow> error + string option" where
  "to_error_url lib self =
     (case (redirect_uri (request self), oauth_error self) of
        (Some uri, Some err) \<Rightarrow>
          if uri \<noteq> [] \<and> err \<noteq> [] then
            (case should_fragment_encode (request self) of
               Inl e \<Rightarrow> Inl e
             | Inr fragment_enc \<Rightarrow>
                 Inr (Some (error_response_request lib err (message self) uri fragment_enc)))
          else Inr None
      | _ \<Rightarrow> Inr None)"

section \<open>The provider\<close>

text \<open>The provider configuration information (a dict): the entries the code reads.\<close>

record configuration =
  issuer :: "string option"
  subject_types_supported :: "string list option"
  id_token_signing_alg_values_supported :: "string list option"
  scopes_supported :: "string list option"

text \<open>The metadata of a registered client (a dict): the entries the code reads.\<close>

record client_metadata =
  redirect_uris :: "string list option"
  response_types :: "string list list option"
  subject_type :: "string option"
  id_token_signed_response_alg :: "string option"

text \<open>An access token as returned by the authorization state.\<close>

record access_token =
  token_value :: string
  token_type :: string
  token_expires_in :: int

text \<open>The result of \<open>introspect_access_token\<close> (a dict): the entries the code reads.\<close>

record introspection =
  intro_active :: "bool option"
  intro_scope :: "string option"
  intro_sub :: "string option"

text \<open>
  The methods of the authorization state (\<open>authz_state.py\<close>, a collaborator).  The
  object is stateful: each method takes the store \<open>'s\<close> and returns its result, or the
  exception it raises, together with the store it leaves behind.
\<close>

record 's authorization_state =
  create_authorization_code :: "auth_request \<Rightarrow> string \<Rightarrow> 's \<Rightarrow> (error + string) \<times> 's"
  create_access_token :: "auth_request \<Rightarrow> string \<Rightarrow> 's \<Rightarrow> (error + access_token) \<times> 's"
  create_refresh_token :: "string \<Rightarrow> 's \<Rightarrow> (error + string) \<times> 's"
  exchange_code_for_token :: "string \<Rightarrow> 's \<Rightarrow> (error + access_token) \<times> 's"
  get_authorization_request_for_code :: "string \<Rightarrow> 's \<Rightarrow> (error + auth_request) \<times> 's"
  get_subject_identifier_for_code :: "string \<Rightarrow> 's \<Rightarrow> (error + string) \<times> 's"
  get_user_id_for_subject_identifier :: "string \<Rightarrow> 's \<Rightarrow> (error + string) \<times> 's"
  get_authorization_request_for_access_token :: "string \<Rightarrow> 's \<Rightarrow> (error + auth_request) \<times> 's"
  introspect_access_token :: "string \<Rightarrow> 's \<Rightarrow> (error + introspection) \<times> 's"
  get_subject_identifier :: "string \<Rightarrow> string \<Rightarrow> string \<Rightarrow> 's \<Rightarrow> (error + string) \<times> 's"

text \<open>
  The attributes of \<open>Provider\<close>.  \<open>get_claims_for\<close> is \<open>self.userinfo.get_claims_for\<close>,
  the read-only interface for user info.
\<close>

record ('s, 'k) provider =
  signing_key :: 'k
  configuration_information :: configuration
  authz_state :: "'s authorization_state"
  clients :: "string \<rightharpoonup> client_metadata"
  get_claims_for :: "string \<Rightarrow> (string \<rightharpoonup> json) \<Rightarrow> (string \<rightharpoonup> json)"
  id_token_lifetime :: int

text \<open>\<open>Provider.__init__\<close>: the defaults of the configuration information.\<close>

definition Provider ::
  "'k \<Rightarrow> configuration \<Rightarrow> 's authorization_state \<Rightarrow> (string \<rightharpoonup> client_metadata)
   \<Rightarrow> (string \<Rightarrow> (string \<rightharpoonup> json) \<Rightarrow> (string \<rightharpoonup> json)) \<Rightarrow> int \<Rightarrow> ('s, 'k) provider" where
  "Provider key conf authz cls userinfo lifetime =
     (let c1 = (case subject_types_supported conf of
                  None \<Rightarrow> conf\<lparr>subject_types_supported := Some [''pairwise'']\<rparr>
                | Some _ \<Rightarrow> conf);
          c2 = (case id_token_signing_alg_values_supported c1 of
                  None \<Rightarrow> c1\<lparr>id_token_signing_alg_values_supported := Some [''RS256'']\<rparr>
                | Some _ \<Rightarrow> c1);
          c3 = (case scopes_supported c2 of
                  None \<Rightarrow> c2\<lparr>scopes_supported := Some [''openid'']\<rparr>
                | Some _ \<Rightarrow> c2)
      in \<lparr>signing_key = key, configuration_information = c3, authz_state = authz,
          clients = cls, get_claims_for = userinfo, id_token_lifetime = lifetime\<rparr>)"

text \<open>The property \<open>provider_configuration\<close>: a deep copy.\<close>

definition provider_configuration :: "('s, 'k) provider \<Rightarrow> configuration" where
  "provider_configuration self = configuration_information self"

section \<open>Validators of the authentication request\<close>

text \<open>A validator returns (\<open>Inr ()\<close>) or raises (\<open>Inl\<close>).\<close>

type_synonym validator = "auth_request \<Rightarrow> error + unit"

definition authorization_request_verify :: "library \<Rightarrow> validator" where
  "authorization_request_verify lib authentication_request =
     (case request_verify lib authentication_request of
        Verified \<Rightarrow> Inr ()
      | MissingRequiredValue e \<Rightarrow>
          Inl (InvalidAuthenticationRequest
                 \<lparr>message = e, request = authentication_request,
                  oauth_error = Some ''invalid_request''\<rparr>)
      | MissingRequiredAttribute e \<Rightarrow>
          Inl (InvalidAuthenticationRequest
                 \<lparr>message = e, request = authentication_request,
                  oauth_error = Some ''invalid_request''\<rparr>)
      | VerifyRaised e \<Rightarrow> Inl (OtherError e))"

definition client_id_is_known :: "('s, 'k) provider \<Rightarrow> validator" where
  "client_id_is_known provider authentication_request =
     (case getitem ''client_id'' (client_id authentication_request) of
        Inl e \<Rightarrow> Inl e
      | Inr cid \<Rightarrow>
          (case clients provider cid of
             None \<Rightarrow>
               Inl (InvalidAuthenticationRequest
                      \<lparr>message = ''Unknown client_id '' @ quoted cid,
                       request = authentication_request,
                       oauth_error = Some ''unauthorized_client''\<rparr>)
           | Some _ \<Rightarrow> Inr ()))"

text \<open>The \<open>try\<close> block catches every \<open>KeyError\<close>: of the request's \<open>client_id\<close>, of the
  client in the registry and of the client's \<open>redirect_uris\<close>.\<close>

definition redirect_uri_is_in_registered_redirect_uris :: "('s, 'k) provider \<Rightarrow> validator" where
  "redirect_uri_is_in_registered_redirect_uris provider authentication_request =
     (case getitem ''redirect_uri'' (redirect_uri authentication_request) of
        Inl e \<Rightarrow> Inl e
      | Inr uri \<Rightarrow>
          (let error = InvalidAuthenticationRequest
                         \<lparr>message = ''Redirect uri '' @ quoted uri @ '' is not registered'',
                          request = authentication_request, oauth_error = None\<rparr>
           in case client_id authentication_request of
                None \<Rightarrow> Inl error
              | Some cid \<Rightarrow>
                  (case clients provider cid of
                     None \<Rightarrow> Inl error
                   | Some client \<Rightarrow>
                       (case redirect_uris client of
                          None \<Rightarrow> Inl error
                        | Some allowed_redirect_uris \<Rightarrow>
                            if uri \<notin> set allowed_redirect_uris then Inl error else Inr ()))))"

definition response_type_is_in_registered_response_types :: "('s, 'k) provider \<Rightarrow> validator" where
  "response_type_is_in_registered_response_types provider authentication_request =
     (case getitem ''response_type'' (response_type authentication_request) of
        Inl e \<Rightarrow> Inl e
      | Inr rt \<Rightarrow>
          (let error = InvalidAuthenticationRequest
                         \<lparr>message = ''Response type '' @ quoted (join '' '' rt)
                                    @ '' is not registered'',
                          request = authentication_request,
                          oauth_error = Some ''invalid_request''\<rparr>
           in case client_id authentication_request of
                None \<Rightarrow> Inl error
              | Some cid \<Rightarrow>
                  (case clients provider cid of
                     None \<Rightarrow> Inl error
                   | Some client \<Rightarrow>
                       (case response_types client of
                          None \<Rightarrow> Inl error
                        | Some allowed_response_types \<Rightarrow>
                            if set rt \<notin> set (map set allowed_response_types)
                            then Inl error else Inr ()))))"

definition userinfo_claims_only_specified_when_access_token_is_issued :: validator where
  "userinfo_claims_only_specified_when_access_token_is_issued authentication_request =
     (case getitem ''response_type'' (response_type authentication_request) of
        Inl e \<Rightarrow> Inl e
      | Inr rt \<Rightarrow>
          (let will_issue_access_token = (rt \<noteq> [''id_token'']);
               contains_userinfo_claims_request =
                 (case claims authentication_request of
                    None \<Rightarrow> False
                  | Some c \<Rightarrow> (case cr_userinfo c of None \<Rightarrow> False | Some _ \<Rightarrow> True))
           in if \<not> will_issue_access_token \<and> contains_userinfo_claims_request then
                Inl (InvalidAuthenticationRequest
                       \<lparr>message = ''Userinfo claims cannot be requested, when response_type=''
                                  @ quoted ''id_token'',
                        request = authentication_request,
                        oauth_error = Some ''invalid_request''\<rparr>)
              else Inr ()))"

text \<open>The unsupported scopes are a Python set, joined in its iteration order; the model
  lists them in the order of the request.\<close>

definition requested_scope_is_supported :: "('s, 'k) provider \<Rightarrow> validator" where
  "requested_scope_is_supported provider authentication_request =
     (case getitem ''scope'' (scope authentication_request) of
        Inl e \<Rightarrow> Inl e
      | Inr requested_scopes \<Rightarrow>
          (case getitem ''scopes_supported'' (scopes_supported (provider_configuration provider)) of
             Inl e \<Rightarrow> Inl e
           | Inr supported_scopes \<Rightarrow>
               (let requested_unsupported_scopes =
                      filter (\<lambda>s. s \<notin> set supported_scopes) (remdups requested_scopes)
                in if requested_unsupported_scopes \<noteq> [] then
                     Inl (InvalidAuthenticationRequest
                            \<lparr>message = ''Request contains unsupported/unknown scopes: ''
                                       @ join '', '' requested_unsupported_scopes,
                             request = authentication_request,
                             oauth_error = Some ''invalid_scope''\<rparr>)
                   else Inr ())))"

text \<open>The list \<open>self.authentication_request_validators\<close> that \<open>__init__\<close> builds.\<close>

definition authentication_request_validators :: "library \<Rightarrow> ('s, 'k) provider \<Rightarrow> validator list" where
  "authentication_request_validators lib self =
     [authorization_request_verify lib,
      client_id_is_known self,
      redirect_uri_is_in_registered_redirect_uris self,
      response_type_is_in_registered_response_types self,
      userinfo_claims_only_specified_when_access_token_is_issued,
      requested_scope_is_supported self]"

text \<open>The loop \<open>for validator in self.authentication_request_validators: validator(auth_req)\<close>.\<close>

fun run_validators :: "validator list \<Rightarrow> auth_request \<Rightarrow> error + unit" where
  "run_validators [] auth_req = Inr ()"
| "run_validators (v # vs) auth_req =
     (case v auth_req of Inl e \<Rightarrow> Inl e | Inr _ \<Rightarrow> run_validators vs auth_req)"

definition parse_authentication_request ::
  "library \<Rightarrow> ('s, 'k) provider \<Rightarrow> string \<Rightarrow> error + auth_request" where
  "parse_authentication_request lib self request_body =
     (let auth_req = deserialize lib request_body
      in case run_validators (authentication_request_validators lib self) auth_req of
           Inl e \<Rightarrow> Inl e
         | Inr _ \<Rightarrow> Inr auth_req)"

section \<open>Effects\<close>

text \<open>
  What the provider's methods change: the store of the authorization state, and the
  clock, of which the world keeps the number of \<open>time.time()\<close> calls made so far.  A
  method maps the world to its result, or the exception it raises, and the world it
  leaves behind.
\<close>

record 's world =
  authz_store :: 's
  clock_reads :: nat

type_synonym ('a, 's) effect = "'s world \<Rightarrow> (error + 'a) \<times> 's world"

definition py_return :: "'a \<Rightarrow> ('a, 's) effect" where
  "py_return x w = (Inr x, w)"

definition py_raise :: "error \<Rightarrow> ('a, 's) effect" where
  "py_raise e w = (Inl e, w)"

text \<open>A step that reads or raises without changing the world.\<close>

definition py_pure :: "error + 'a \<Rightarrow> ('a, 's) effect" where
  "py_pure r w = (r, w)"

text \<open>Sequencing: an exception ends the method with the world reached so far.\<close>

definition py_bind :: "('a, 's) effect \<Rightarrow> ('a \<Rightarrow> ('b, 's) effect) \<Rightarrow> ('b, 's) effect" where
  "py_bind m f w = (case m w of (Inl e, w') \<Rightarrow> (Inl e, w') | (Inr x, w') \<Rightarrow> f x w')"

text \<open>A call of a method of \<open>self.authz_state\<close>.\<close>

definition call_authz :: "('s \<Rightarrow> (error + 'a) \<times> 's) \<Rightarrow> ('a, 's) effect" where
  "call_authz method w =
     (case method (authz_store w) of (r, s') \<Rightarrow> (r, w\<lparr>authz_store := s'\<rparr>))"

text \<open>A call of \<open>time.time()\<close>.\<close>

definition call_time :: "library \<Rightarrow> (real, 's) effect" where
  "call_time lib w = (Inr (time_time lib (clock_reads w)), w\<lparr>clock_reads := Suc (clock_reads w)\<rparr>)"

text \<open>\<open>xs[0]\<close>.\<close>

definition first :: "'a list \<Rightarrow> error + 'a" where
  "first xs = (case xs of [] \<Rightarrow> Inl IndexError | x # _ \<Rightarrow> Inr x)"

text \<open>\<open>d.get(k)\<close> on a dict of decoded JSON: \<open>None\<close> when the key is absent.\<close>

definition dict_get :: "(string \<rightharpoonup> json) \<Rightarrow> string \<Rightarrow> json" where
  "dict_get d k = (case d k of None \<Rightarrow> JNull | Some v \<Rightarrow> v)"

section \<open>Authorization endpoint\<close>

text \<open>
  The responses (\<open>AuthorizationResponse\<close>, \<open>AccessTokenResponse\<close>) are dict-like messages:
  the entries the code sets.  A signed ID Token is kept as what \<open>to_jwt\<close> signs: the
  claims that the \<open>IdToken\<close> message holds, the keys and the algorithm.
\<close>

record 'k jws =
  jws_payload :: "string \<rightharpoonup> json"
  jws_keys :: "'k list"
  jws_alg :: string

record 'k response =
  resp_code :: "string option"
  resp_access_token :: "string option"
  resp_token_type :: "string option"
  resp_expires_in :: "int option"
  resp_refresh_token :: "string option"
  resp_id_token :: "'k jws option"
  resp_state :: "string option"

definition empty_response :: "'k response" where
  "empty_response =
     \<lparr>resp_code = None, resp_access_token = None, resp_token_type = None,
      resp_expires_in = None, resp_refresh_token = None, resp_id_token = None,
      resp_state = None\<rparr>"

text \<open>The argument \<open>extra_id_token_claims\<close>: \<open>None\<close>, a mapping, or a callable taking the
  user id and the client id.\<close>

datatype extra_claims =
    NoExtraClaims
  | ExtraClaims "string \<rightharpoonup> json"
  | ExtraClaimsCallable "string \<Rightarrow> string \<Rightarrow> (string \<rightharpoonup> json)"

definition add_access_token_to_response :: "'k response \<Rightarrow> access_token \<Rightarrow> 'k response" where
  "add_access_token_to_response response access_token =
     response\<lparr>resp_access_token := Some (token_value access_token),
              resp_token_type := Some (token_type access_token),
              resp_expires_in := Some (token_expires_in access_token)\<rparr>"

definition create_subject_identifier ::
  "library \<Rightarrow> ('s, 'k) provider \<Rightarrow> string \<Rightarrow> string \<Rightarrow> string \<Rightarrow> (string, 's) effect" where
  "create_subject_identifier lib self user_id cid uri =
     py_bind (py_pure (getitem ''subject_types_supported''
                         (subject_types_supported (configuration_information self))))
       (\<lambda>types.
     py_bind (py_pure (first types))
       (\<lambda>supported_subject_types.
     py_bind (py_pure (getitem cid (clients self cid)))
       (\<lambda>client.
          (let st = (case subject_type client of
                       None \<Rightarrow> supported_subject_types
                     | Some t \<Rightarrow> t);
               sector_identifier = netloc lib uri
           in call_authz (get_subject_identifier (authz_state self) st user_id sector_identifier)))))"

definition get_requested_claims_in ::
  "auth_request \<Rightarrow> string \<Rightarrow> error + (string \<rightharpoonup> json)" where
  "get_requested_claims_in authentication_request response_method =
     (if response_method \<noteq> ''id_token'' \<and> response_method \<noteq> ''userinfo'' then
        Inl (ValueError (''response_method must be '' @ quoted ''id_token'' @ '' or ''
                         @ quoted ''userinfo''))
      else
        Inr (case claims authentication_request of
               None \<Rightarrow> Map.empty
             | Some c \<Rightarrow>
                 (case (if response_method = ''id_token'' then cr_id_token c else cr_userinfo c) of
                    None \<Rightarrow> Map.empty
                  | Some requested \<Rightarrow> Map.empty ++ requested)))"

text \<open>\<open>alg[-3:]\<close>: the last three characters.\<close>

definition last3 :: "string \<Rightarrow> string" where
  "last3 alg = drop (length alg - 3) alg"

text \<open>
  The call \<open>IdToken(iss=.., sub=.., aud=.., iat=.., exp=.., **args)\<close>.  By Python's
  calling convention a keyword that is given twice is a \<open>TypeError\<close> of the call;
  otherwise the constructor of the library receives the keyword arguments
  \<open>id_token_kwargs\<close>.  What the message then holds is the library's business.
\<close>

definition id_token_kwargs ::
  "string \<Rightarrow> string \<Rightarrow> string \<Rightarrow> real \<Rightarrow> real \<Rightarrow> (string \<rightharpoonup> json) \<Rightarrow> (string \<rightharpoonup> json)" where
  "id_token_kwargs iss_arg sub_arg aud_arg iat_arg exp_arg args =
     args(''iss'' \<mapsto> JStr iss_arg, ''sub'' \<mapsto> JStr sub_arg, ''aud'' \<mapsto> JStr aud_arg,
          ''iat'' \<mapsto> JNum iat_arg, ''exp'' \<mapsto> JNum exp_arg)"

definition IdToken ::
  "library \<Rightarrow> string \<Rightarrow> string \<Rightarrow> string \<Rightarrow> real \<Rightarrow> real \<Rightarrow> (string \<rightharpoonup> json)
   \<Rightarrow> error + (string \<rightharpoonup> json)" where
  "IdToken lib iss_arg sub_arg aud_arg iat_arg exp_arg args =
     (case filter (\<lambda>k. case args k of None \<Rightarrow> False | Some _ \<Rightarrow> True)
             [''iss'', ''sub'', ''aud'', ''iat'', ''exp''] of
        k # _ \<Rightarrow> Inl (TypeError k)
      | [] \<Rightarrow> id_token_message lib
                (id_token_kwargs iss_arg sub_arg aud_arg iat_arg exp_arg args))"

text \<open>
  \<open>_create_signed_id_token\<close>.  \<open>if user_claims: args.update(user_claims)\<close> is
  \<open>args ++ user_claims\<close>, as updating with an empty dict changes nothing.
\<close>

definition create_signed_id_token ::
  "library \<Rightarrow> ('s, 'k) provider \<Rightarrow> string \<Rightarrow> string \<Rightarrow> (string \<rightharpoonup> json) \<Rightarrow> string option
   \<Rightarrow> string option \<Rightarrow> string option \<Rightarrow> (string \<rightharpoonup> json) \<Rightarrow> ('k jws, 's) effect" where
  "create_signed_id_token lib self cid sub user_claims nonce_arg authorization_code
       access_token_value extra_id_token_claims =
     py_bind (py_pure (getitem cid (clients self cid)))
       (\<lambda>client.
     py_bind (py_pure (getitem ''id_token_signing_alg_values_supported''
                         (id_token_signing_alg_values_supported (configuration_information self))))
       (\<lambda>algs.
     py_bind (py_pure (first algs))
       (\<lambda>default_alg.
          (let alg = (case id_token_signed_response_alg client of
                        None \<Rightarrow> default_alg
                      | Some a \<Rightarrow> a);
               hash_alg = ''HS'' @ last3 alg;
               args0 = Map.empty;
               args1 = (case authorization_code of
                          None \<Rightarrow> args0
                        | Some c \<Rightarrow>
                            if c \<noteq> [] then args0(''c_hash'' \<mapsto> JStr (left_hash lib c hash_alg))
                            else args0);
               args2 = (case access_token_value of
                          None \<Rightarrow> args1
                        | Some a \<Rightarrow>
                            if a \<noteq> [] then args1(''at_hash'' \<mapsto> JStr (left_hash lib a hash_alg))
                            else args1);
               args3 = args2 ++ user_claims;
               args = args3 ++ extra_id_token_claims
           in
     py_bind (py_pure (getitem ''issuer'' (issuer (configuration_information self))))
       (\<lambda>iss.
     py_bind (call_time lib)
       (\<lambda>t_iat.
     py_bind (call_time lib)
       (\<lambda>t_exp.
     py_bind (py_pure (IdToken lib iss sub cid t_iat
                         (t_exp + real_of_int (id_token_lifetime self)) args))
       (\<lambda>id_token0.
     py_bind (py_pure (case nonce_arg of
                         None \<Rightarrow> Inr id_token0
                       | Some n \<Rightarrow>
                           if n \<noteq> [] then message_setitem lib id_token0 ''nonce'' (JStr n)
                           else Inr id_token0))
       (\<lambda>id_token.
          py_return \<lparr>jws_payload = id_token, jws_keys = [signing_key self],
                       jws_alg = alg\<rparr>)))))))))"

definition check_subject_identifier_matches_requested ::
  "auth_request \<Rightarrow> string \<Rightarrow> error + unit" where
  "check_subject_identifier_matches_requested authentication_request sub =
     (case claims authentication_request of
        None \<Rightarrow> Inr ()
      | Some c \<Rightarrow>
          (let requested_id_token_sub =
                 dict_get (case cr_id_token c of None \<Rightarrow> Map.empty | Some d \<Rightarrow> d) ''sub'';
               requested_userinfo_sub =
                 dict_get (case cr_userinfo c of None \<Rightarrow> Map.empty | Some d \<Rightarrow> d) ''sub''
           in if truthy requested_id_token_sub \<and> truthy requested_userinfo_sub
                 \<and> \<not> py_eq requested_id_token_sub requested_userinfo_sub then
                Inl (AuthorizationError
                       ''Requested different subject identifier for IDToken and userinfo: {} != {}''
                       [requested_id_token_sub, requested_userinfo_sub])
              else
                (let requested_sub = py_or requested_id_token_sub requested_userinfo_sub
                 in if truthy requested_sub \<and> \<not> py_eq (JStr sub) requested_sub then
                      Inl (AuthorizationError
                             (''Requested subject identifier '' @ quoted ''{}''
                              @ '' could not be matched'')
                             [requested_sub])
                    else Inr ())))"

text \<open>The resolution of \<open>extra_id_token_claims\<close> in \<open>authorize\<close> and \<open>_do_code_exchange\<close>.\<close>

definition resolve_extra_id_token_claims ::
  "extra_claims \<Rightarrow> string \<Rightarrow> auth_request \<Rightarrow> error + (string \<rightharpoonup> json)" where
  "resolve_extra_id_token_claims extra_id_token_claims user_id authentication_request =
     (case extra_id_token_claims of
        NoExtraClaims \<Rightarrow> Inr Map.empty
      | ExtraClaimsCallable f \<Rightarrow>
          (case getitem ''client_id'' (client_id authentication_request) of
             Inl e \<Rightarrow> Inl e
           | Inr cid \<Rightarrow> Inr (f user_id cid))
      | ExtraClaims m \<Rightarrow> Inr m)"

definition authorize ::
  "library \<Rightarrow> ('s, 'k) provider \<Rightarrow> auth_request \<Rightarrow> string \<Rightarrow> extra_claims
   \<Rightarrow> ('k response, 's) effect" where
  "authorize lib self authentication_request user_id extra_id_token_claims =
     py_bind (py_pure (getitem ''client_id'' (client_id authentication_request)))
       (\<lambda>cid.
     py_bind (py_pure (getitem ''redirect_uri'' (redirect_uri authentication_request)))
       (\<lambda>uri.
     py_bind (create_subject_identifier lib self user_id cid uri)
       (\<lambda>sub.
     py_bind (py_pure (check_subject_identifier_matches_requested authentication_request sub))
       (\<lambda>_.
     py_bind (py_pure (getitem ''response_type'' (response_type authentication_request)))
       (\<lambda>rt.
     py_bind
       (if ''code'' \<in> set rt then
          py_bind (call_authz (create_authorization_code (authz_state self)
                                 authentication_request sub))
            (\<lambda>c. py_return (Some c, empty_response\<lparr>resp_code := Some c\<rparr>))
        else py_return (None, empty_response))
       (\<lambda>(authz_code, response1).
     py_bind
       (if ''token'' \<in> set rt then
          py_bind (call_authz (create_access_token (authz_state self)
                                 authentication_request sub))
            (\<lambda>access_token.
               py_return (Some (token_value access_token),
                          add_access_token_to_response response1 access_token))
        else py_return (None, response1))
       (\<lambda>(access_token_value, response2).
     py_bind
       (if ''id_token'' \<in> set rt then
          py_bind (py_pure (resolve_extra_id_token_claims extra_id_token_claims user_id
                              authentication_request))
            (\<lambda>extra.
          py_bind (py_pure (get_requested_claims_in authentication_request ''id_token''))
            (\<lambda>requested_claims0.
          py_bind
            (if length rt = 1 then
               py_bind (py_pure (getitem ''scope'' (scope authentication_request)))
                 (\<lambda>sc. py_return (requested_claims0 ++ scope2claims lib sc))
             else py_return requested_claims0)
            (\<lambda>requested_claims.
               (let user_claims = get_claims_for self user_id requested_claims
                in
          py_bind (create_signed_id_token lib self cid sub user_claims
                     (nonce authentication_request) authz_code access_token_value extra)
            (\<lambda>id_token. py_return (response2\<lparr>resp_id_token := Some id_token\<rparr>))))))
        else py_return response2)
       (\<lambda>response3.
          py_return (case state authentication_request of
                       None \<Rightarrow> response3
                     | Some s \<Rightarrow> response3\<lparr>resp_state := Some s\<rparr>)))))))))"

section \<open>Token endpoint: the authorization-code exchange\<close>

text \<open>
  \<open>handle_token_request\<close> authenticates the client and dispatches on \<open>grant_type\<close>; the
  properties below are about the method it calls for \<open>authorization_code\<close>.

  \<open>_do_code_exchange\<close> after the comparison of the redirect URIs: the rest of the
  method body, from \<open>get_subject_identifier_for_code\<close> on.
\<close>

definition do_code_exchange_rest ::
  "library \<Rightarrow> ('s, 'k) provider \<Rightarrow> string \<Rightarrow> auth_request \<Rightarrow> extra_claims
   \<Rightarrow> ('k response, 's) effect" where
  "do_code_exchange_rest lib self code authentication_request extra_id_token_claims =
     py_bind (call_authz (get_subject_identifier_for_code (authz_state self) code))
       (\<lambda>sub.
     py_bind (call_authz (get_user_id_for_subject_identifier (authz_state self) sub))
       (\<lambda>user_id.
     py_bind (call_authz (exchange_code_for_token (authz_state self) code))
       (\<lambda>access_token.
     py_bind (call_authz (create_refresh_token (authz_state self) (token_value access_token)))
       (\<lambda>refresh_token.
          (let response = (add_access_token_to_response empty_response access_token)
                            \<lparr>resp_refresh_token := Some refresh_token\<rparr>
           in
     py_bind (py_pure (resolve_extra_id_token_claims extra_id_token_claims user_id
                         authentication_request))
       (\<lambda>extra.
     py_bind (py_pure (get_requested_claims_in authentication_request ''id_token''))
       (\<lambda>requested_claims.
          (let user_claims = get_claims_for self user_id requested_claims
           in
     py_bind (py_pure (getitem ''client_id'' (client_id authentication_request)))
       (\<lambda>cid.
     py_bind (create_signed_id_token lib self cid sub user_claims
                (nonce authentication_request) None (Some (token_value access_token)) extra)
       (\<lambda>id_token. py_return (response\<lparr>resp_id_token := Some id_token\<rparr>)))))))))))"

text \<open>\<open>_do_code_exchange\<close>: the schema check, the lookup of the original request and the
  comparison of the redirect URIs, then the rest.\<close>

definition do_code_exchange ::
  "library \<Rightarrow> ('s, 'k) provider \<Rightarrow> (string \<rightharpoonup> string) \<Rightarrow> extra_claims
   \<Rightarrow> ('k response, 's) effect" where
  "do_code_exchange lib self request_params extra_id_token_claims =
     (let token_request = token_request_from_dict lib request_params in
     py_bind (py_pure (case token_request_verify lib token_request of
                         Verified \<Rightarrow> Inr ()
                       | MissingRequiredValue e \<Rightarrow> Inl (InvalidTokenRequest e ''invalid_request'')
                       | MissingRequiredAttribute e \<Rightarrow> Inl (InvalidTokenRequest e ''invalid_request'')
                       | VerifyRaised e \<Rightarrow> Inl (OtherError e)))
       (\<lambda>_.
     py_bind (py_pure (getitem ''code'' (token_request ''code'')))
       (\<lambda>code.
     py_bind (call_authz (get_authorization_request_for_code (authz_state self) code))
       (\<lambda>authentication_request.
     py_bind (py_pure (getitem ''redirect_uri'' (token_request ''redirect_uri'')))
       (\<lambda>token_uri.
     py_bind (py_pure (getitem ''redirect_uri'' (redirect_uri authentication_request)))
       (\<lambda>original_uri.
          if token_uri \<noteq> original_uri then
            py_raise (InvalidTokenRequest
                        (''Invalid redirect_uri: '' @ token_uri @ '' != '' @ original_uri)
                        ''invalid_request'')
          else do_code_exchange_rest lib self code authentication_request
                 extra_id_token_claims))))))"

section \<open>Userinfo endpoint\<close>

text \<open>\<open>OpenIDSchema(sub=.., **user_claims)\<close>: \<open>sub\<close> given twice is a \<open>TypeError\<close>.\<close>

definition OpenIDSchema :: "string \<Rightarrow> (string \<rightharpoonup> json) \<Rightarrow> error + (string \<rightharpoonup> json)" where
  "OpenIDSchema sub_arg kwargs =
     (case kwargs ''sub'' of
        Some _ \<Rightarrow> Inl (TypeError ''sub'')
      | None \<Rightarrow> Inr (kwargs(''sub'' \<mapsto> JStr sub_arg)))"

definition handle_userinfo_request ::
  "library \<Rightarrow> ('s, 'k) provider \<Rightarrow> string option \<Rightarrow> (string \<rightharpoonup> string) option
   \<Rightarrow> (string \<rightharpoonup> json, 's) effect" where
  "handle_userinfo_request lib self request_arg http_headers =
     py_bind (py_pure (extract_bearer_token_from_http_request lib request_arg http_headers))
       (\<lambda>bearer_token.
     py_bind (call_authz (introspect_access_token (authz_state self) bearer_token))
       (\<lambda>introspection.
     py_bind (py_pure (getitem ''active'' (intro_active introspection)))
       (\<lambda>active.
          if \<not> active then py_raise (InvalidUserinfoRequest ''The access token has expired'')
          else
     py_bind (py_pure (getitem ''scope'' (intro_scope introspection)))
       (\<lambda>sc.
     py_bind (py_pure (getitem ''sub'' (intro_sub introspection)))
       (\<lambda>sub.
     py_bind (call_authz (get_user_id_for_subject_identifier (authz_state self) sub))
       (\<lambda>user_id.
          (let requested_claims0 = scope2claims lib (str_split lib sc)
           in
     py_bind (call_authz (get_authorization_request_for_access_token (authz_state self)
                            bearer_token))
       (\<lambda>authentication_request.
     py_bind (py_pure (get_requested_claims_in authentication_request ''userinfo''))
       (\<lambda>from_request.
          (let requested_claims = requested_claims0 ++ from_request;
               user_claims = get_claims_for self user_id requested_claims
           in py_pure (OpenIDSchema sub user_claims)))))))))))"

section \<open>Test doubles\<close>

text \<open>
  Stand-ins for the libraries and collaborators, used to run the provider on concrete
  inputs: a schema check for the required parameters, a deserializer that knows the
  request bodies below, an in-memory authorization state and a user database with one
  user.
\<close>

definition test_verify :: "auth_request \<Rightarrow> verify_outcome" where
  "test_verify r =
     (case response_type r of
        None \<Rightarrow> MissingRequiredAttribute ''response_type''
      | Some _ \<Rightarrow>
     (case client_id r of
        None \<Rightarrow> MissingRequiredAttribute ''client_id''
      | Some _ \<Rightarrow>
     (case redirect_uri r of
        None \<Rightarrow> MissingRequiredAttribute ''redirect_uri''
      | Some _ \<Rightarrow>
     (case scope r of
        None \<Rightarrow> MissingRequiredAttribute ''scope''
      | Some sc \<Rightarrow> if ''openid'' \<in> set sc then Verified else MissingRequiredValue ''openid''))))"

definition empty_request :: auth_request where
  "empty_request =
     \<lparr>response_type = None, client_id = None, redirect_uri = None, scope = None,
      state = None, nonce = None, claims = None\<rparr>"

definition code_request :: auth_request where
  "code_request =
     empty_request\<lparr>response_type := Some [''code''], client_id := Some ''c1'',
                   redirect_uri := Some ''https://rp/cb'', scope := Some [''openid''],
                   state := Some ''xyz''\<rparr>"

definition test_requests :: "(string \<times> auth_request) list" where
  "test_requests =
     [(''response_type=code&client_id=c1&redirect_uri=https://rp/cb&scope=openid&state=xyz'',
       code_request),
      (''response_type=code&client_id=zz&redirect_uri=https://evil/cb&scope=openid+writer'',
       code_request\<lparr>client_id := Some ''zz'', redirect_uri := Some ''https://evil/cb'',
                    scope := Some [''openid'', ''writer''], state := None\<rparr>),
      (''client_id=c1&redirect_uri=https://rp/cb&scope=openid'',
       code_request\<lparr>response_type := None, state := None\<rparr>)]"

definition test_split :: "string \<Rightarrow> string list" where
  "test_split s =
     filter (\<lambda>w. w \<noteq> [])
       (foldr (\<lambda>c ws. if c = CHR '' '' then [] # ws else (c # hd ws) # tl ws) s [[]])"

definition test_scope2claims :: "string list \<Rightarrow> (string \<rightharpoonup> json)" where
  "test_scope2claims scopes =
     (if ''email'' \<in> set scopes then [''email'' \<mapsto> JNull, ''email_verified'' \<mapsto> JNull]
      else Map.empty)"

definition test_extract_bearer_token ::
  "string option \<Rightarrow> (string \<rightharpoonup> string) option \<Rightarrow> error + string" where
  "test_extract_bearer_token request_arg http_headers =
     (case http_headers of
        None \<Rightarrow> Inl (OtherError ''BearerTokenError'')
      | Some h \<Rightarrow>
          (case h ''Authorization'' of
             None \<Rightarrow> Inl (OtherError ''BearerTokenError'')
           | Some v \<Rightarrow>
               if take 7 v = ''Bearer '' then Inr (drop 7 v)
               else Inl (OtherError ''BearerTokenError'')))"

definition test_token_request_verify :: "(string \<rightharpoonup> string) \<Rightarrow> verify_outcome" where
  "test_token_request_verify r =
     (case r ''code'' of
        None \<Rightarrow> MissingRequiredAttribute ''code''
      | Some _ \<Rightarrow>
          (case r ''redirect_uri'' of
             None \<Rightarrow> MissingRequiredAttribute ''redirect_uri''
           | Some _ \<Rightarrow> Verified))"

text \<open>A stand-in for the \<open>IdToken\<close> message: it drops empty strings, holds \<open>aud\<close> as a
  list and \<open>iat\<close> and \<open>exp\<close> as whole seconds.\<close>

definition test_id_token_message :: "(string \<rightharpoonup> json) \<Rightarrow> error + (string \<rightharpoonup> json)" where
  "test_id_token_message kwargs =
     Inr (\<lambda>k. case kwargs k of
                 None \<Rightarrow> None
               | Some v \<Rightarrow>
                   (case v of
                      JStr s \<Rightarrow> if s = [] then None
                                else if k = ''aud'' then Some (JArr [JStr s]) else Some v
                    | JNum x \<Rightarrow> if k = ''iat'' \<or> k = ''exp''
                                then Some (JNum (real_of_int \<lfloor>x\<rfloor>)) else Some v
                    | _ \<Rightarrow> Some v))"

definition test_library :: library where
  "test_library =
     \<lparr>request_verify = test_verify,
      deserialize = (\<lambda>body. case map_of test_requests body of
                               None \<Rightarrow> empty_request
                             | Some r \<Rightarrow> r),
      error_response_request =
        (\<lambda>err msg location fragment_enc.
           location @ (if fragment_enc then ''#'' else ''?'') @ ''error='' @ err
           @ ''&error_message='' @ msg),
      scope2claims = test_scope2claims,
      left_hash = (\<lambda>s hash_alg. hash_alg @ '':'' @ s),
      netloc = (\<lambda>uri. takeWhile (\<lambda>c. c \<noteq> CHR ''/'') (drop 8 uri)),
      token_request_from_dict = (\<lambda>d. d),
      token_request_verify = test_token_request_verify,
      extract_bearer_token_from_http_request = test_extract_bearer_token,
      str_split = test_split,
      id_token_message = test_id_token_message,
      message_setitem = (\<lambda>m k v. Inr (m(k \<mapsto> v))),
      time_time = (\<lambda>n. 1000 + real n)\<rparr>"

text \<open>The in-memory authorization state: the codes and the access tokens issued, each
  with its request and subject identifier, the refresh tokens, and the user of each
  subject identifier.\<close>

record test_store =
  codes :: "(string \<times> auth_request \<times> string) list"
  tokens :: "(string \<times> auth_request \<times> string) list"
  refresh_tokens :: "string list"
  subjects :: "(string \<times> string) list"

definition empty_store :: test_store where
  "empty_store = \<lparr>codes = [], tokens = [], refresh_tokens = [], subjects = []\<rparr>"

definition new_token :: "test_store \<Rightarrow> access_token" where
  "new_token s =
     \<lparr>token_value = replicate (Suc (length (tokens s))) CHR ''t'',
      token_type = ''Bearer'', token_expires_in = 3600\<rparr>"

definition unknown :: "string \<Rightarrow> test_store \<Rightarrow> (error + 'a) \<times> test_store" where
  "unknown what s = (Inl (OtherError what), s)"

definition test_authz_state :: "test_store authorization_state" where
  "test_authz_state =
     \<lparr>create_authorization_code =
        (\<lambda>req sub s.
           (let c = replicate (Suc (length (codes s))) CHR ''c''
            in (Inr c, s\<lparr>codes := (c, req, sub) # codes s\<rparr>))),
      create_access_token =
        (\<lambda>req sub s.
           (Inr (new_token s), s\<lparr>tokens := (token_value (new_token s), req, sub) # tokens s\<rparr>)),
      create_refresh_token =
        (\<lambda>v s. (Inr (''r'' @ v), s\<lparr>refresh_tokens := (''r'' @ v) # refresh_tokens s\<rparr>)),
      exchange_code_for_token =
        (\<lambda>c s.
           (case map_of (codes s) c of
              None \<Rightarrow> unknown ''InvalidAuthorizationCode'' s
            | Some (req, sub) \<Rightarrow>
                (Inr (new_token s),
                 s\<lparr>codes := filter (\<lambda>e. fst e \<noteq> c) (codes s),
                   tokens := (token_value (new_token s), req, sub) # tokens s\<rparr>))),
      get_authorization_request_for_code =
        (\<lambda>c s.
           (case map_of (codes s) c of
              None \<Rightarrow> unknown ''InvalidAuthorizationCode'' s
            | Some (req, sub) \<Rightarrow> (Inr req, s))),
      get_subject_identifier_for_code =
        (\<lambda>c s.
           (case map_of (codes s) c of
              None \<Rightarrow> unknown ''InvalidAuthorizationCode'' s
            | Some (req, sub) \<Rightarrow> (Inr sub, s))),
      get_user_id_for_subject_identifier =
        (\<lambda>sub s.
           (case map_of (subjects s) sub of
              None \<Rightarrow> unknown ''InvalidSubjectIdentifier'' s
            | Some user_id \<Rightarrow> (Inr user_id, s))),
      get_authorization_request_for_access_token =
        (\<lambda>v s.
           (case map_of (tokens s) v of
              None \<Rightarrow> unknown ''InvalidAccessToken'' s
            | Some (req, sub) \<Rightarrow> (Inr req, s))),
      introspect_access_token =
        (\<lambda>v s.
           (case map_of (tokens s) v of
              None \<Rightarrow>
                (Inr \<lparr>intro_active = Some False, intro_scope = None, intro_sub = None\<rparr>, s)
            | Some (req, sub) \<Rightarrow>
                (Inr \<lparr>intro_active = Some True,
                      intro_scope = Some (join '' '' (case scope req of None \<Rightarrow> [] | Some sc \<Rightarrow> sc)),
                      intro_sub = Some sub\<rparr>, s))),
      get_subject_identifier =
        (\<lambda>st user_id sector s.
           (let sub = st @ '':'' @ user_id @ ''@'' @ sector
            in (Inr sub, s\<lparr>subjects := (sub, user_id) # subjects s\<rparr>)))\<rparr>"

definition test_clients :: "string \<rightharpoonup> client_metadata" where
  "test_clients =
     [''c1'' \<mapsto> \<lparr>redirect_uris = Some [''https://rp/cb''],
                 response_types = Some [[''code''], [''id_token''], [''code'', ''id_token''],
                                        [''id_token'', ''token'']],
                 subject_type = None, id_token_signed_response_alg = None\<rparr>]"

text \<open>The user database: \<open>get_claims_for\<close> returns the requested claims it has.\<close>

definition test_userinfo :: "string \<Rightarrow> (string \<rightharpoonup> json) \<Rightarrow> (string \<rightharpoonup> json)" where
  "test_userinfo user_id requested_claims =
     (\<lambda>k. case requested_claims k of
             None \<Rightarrow> None
           | Some _ \<Rightarrow> (if user_id = ''user1'' then
                          [''email'' \<mapsto> JStr ''user1@example.com'', ''name'' \<mapsto> JStr ''User One''] k
                        else None))"

definition test_provider :: "(test_store, string) provider" where
  "test_provider =
     Provider ''key1''
       \<lparr>issuer = Some ''https://op.example.com'', subject_types_supported = None,
        id_token_signing_alg_values_supported = None, scopes_supported = Some [''openid'', ''email'']\<rparr>
       test_authz_state test_clients test_userinfo 3600"

definition start :: "test_store world" where
  "start = \<lparr>authz_store = empty_store, clock_reads = 0\<rparr>"

text \<open>A request of an unknown client for a redirect URI that nobody registered, and
  the exception that the client-known validator raises for it.\<close>

definition evil_request :: auth_request where
  "evil_request =
     code_request\<lparr>client_id := Some ''zz'', redirect_uri := Some ''https://evil/cb'',
                   scope := Some [''openid'', ''writer''], state := None\<rparr>"

definition unknown_client_error :: invalid_authentication_request where
  "unknown_client_error =
     \<lparr>message = ''Unknown client_id '' @ quoted ''zz'', request = evil_request,
      oauth_error = Some ''unauthorized_client''\<rparr>"

text \<open>A request for \<open>response_type=id_token id_token\<close> with a \<open>claims.userinfo\<close> member.\<close>

definition repeated_id_token_request :: auth_request where
  "repeated_id_token_request =
     code_request\<lparr>response_type := Some [''id_token'', ''id_token''],
                   claims := Some \<lparr>cr_id_token = None,
                                    cr_userinfo = Some [''email'' \<mapsto> JNull]\<rparr>\<rparr>"

text \<open>A store in which the code \<open>c\<close> was issued for \<open>code_request\<close> and the user
  \<open>user1\<close>, and the token requests that redeem it with the right and with a wrong
  redirect URI.\<close>

definition store_with_code :: "test_store world" where
  "store_with_code =
     \<lparr>authz_store =
        \<lparr>codes = [(''c'', code_request, ''pairwise:user1@rp'')], tokens = [],
         refresh_tokens = [], subjects = [(''pairwise:user1@rp'', ''user1'')]\<rparr>,
      clock_reads = 0\<rparr>"

definition good_token_request :: "string \<rightharpoonup> string" where
  "good_token_request =
     [''grant_type'' \<mapsto> ''authorization_code'', ''code'' \<mapsto> ''c'',
      ''redirect_uri'' \<mapsto> ''https://rp/cb'']"

definition bad_token_request :: "string \<rightharpoonup> string" where
  "bad_token_request =
     [''grant_type'' \<mapsto> ''authorization_code'', ''code'' \<mapsto> ''c'',
      ''redirect_uri'' \<mapsto> ''https://rp/cb/'']"

text \<open>A store in which the access token \<open>t\<close> was issued for a request with the scopes
  \<open>openid email\<close> and a \<open>claims.userinfo\<close> member asking for \<open>name\<close>.\<close>

definition userinfo_request :: auth_request where
  "userinfo_request =
     code_request\<lparr>response_type := Some [''id_token'', ''token''],
                   scope := Some [''openid'', ''email''],
                   claims := Some \<lparr>cr_id_token = None,
                                    cr_userinfo = Some [''name'' \<mapsto> JObj [(''essential'', JBool True)]]\<rparr>\<rparr>"

definition store_with_token :: "test_store world" where
  "store_with_token =
     \<lparr>authz_store =
        \<lparr>codes = [], tokens = [(''t'', userinfo_request, ''pairwise:user1@rp'')],
         refresh_tokens = [], subjects = [(''pairwise:user1@rp'', ''user1'')]\<rparr>,
      clock_reads = 0\<rparr>"

text \<open>A method that must not be called: it raises and wipes the store.\<close>

definition poison :: "test_store \<Rightarrow> (error + 'a) \<times> test_store" where
  "poison s = (Inl (OtherError ''called''), empty_store)"

definition poisoned_provider :: "(test_store, string) provider" where
  "poisoned_provider =
     test_provider\<lparr>authz_state :=
       (authz_state test_provider)\<lparr>exchange_code_for_token := (\<lambda>c. poison),
                                    create_refresh_token := (\<lambda>v. poison),
                                    create_access_token := (\<lambda>r sub. poison)\<rparr>\<rparr>"

text \<open>Requests for the hybrid flow \<open>code id_token\<close> with a nonce and for \<open>id_token\<close>
  alone; a library whose clock stands still; extra claims that use the names \<open>nonce\<close>,
  \<open>c_hash\<close> and \<open>at_hash\<close>; and a request that asks, in \<open>claims.id_token\<close>, for the very
  \<open>sub\<close> that is derived for \<open>user1\<close> and the client \<open>c1\<close>.\<close>

definition hybrid_request :: auth_request where
  "hybrid_request =
     code_request\<lparr>response_type := Some [''code'', ''id_token''], nonce := Some ''n1''\<rparr>"

definition id_token_request :: auth_request where
  "id_token_request = code_request\<lparr>response_type := Some [''id_token'']\<rparr>"

definition steady_library :: library where
  "steady_library = test_library\<lparr>time_time := (\<lambda>n. 1000)\<rparr>"

definition reserved_extra_claims :: extra_claims where
  "reserved_extra_claims =
     ExtraClaims [''nonce'' \<mapsto> JStr ''n'', ''c_hash'' \<mapsto> JStr ''h'', ''at_hash'' \<mapsto> JStr ''h'']"

definition matching_sub_request :: auth_request where
  "matching_sub_request =
     id_token_request\<lparr>claims := Some \<lparr>cr_id_token =
         Some [''sub'' \<mapsto> JObj [(''value'', JStr ''pairwise:user1@rp'')]],
       cr_userinfo = None\<rparr>\<rparr>"

text \<open>A request for \<open>response_type=code code\<close>, and a request of the registered client
  \<open>c1\<close> for an unregistered redirect URI that fails the schema check (no \<open>openid\<close>
  scope).\<close>

definition repeated_code_request :: auth_request where
  "repeated_code_request = code_request\<lparr>response_type := Some [''code'', ''code'']\<rparr>"

definition evil_known_request :: auth_request where
  "evil_known_request =
     code_request\<lparr>redirect_uri := Some ''https://evil/cb'', scope := Some [''email'']\<rparr>"

section \<open>Properties\<close>

lemmas test_defs = test_library_def test_requests_def test_verify_def code_request_def
  empty_request_def test_provider_def Provider_def test_clients_def quoted_def getitem_def
  evil_request_def unknown_client_error_def repeated_id_token_request_def
  repeated_code_request_def evil_known_request_def

lemmas run_defs = test_defs store_with_code_def good_token_request_def bad_token_request_def
  test_authz_state_def test_token_request_verify_def empty_store_def new_token_def unknown_def
  userinfo_request_def store_with_token_def poison_def poisoned_provider_def
  test_extract_bearer_token_def test_split_def test_scope2claims_def test_userinfo_def

lemmas authorize_run_defs = authorize_def run_defs py_bind_def call_authz_def py_pure_def
      resolve_extra_id_token_claims_def get_requested_claims_in_def create_signed_id_token_def
      first_def call_time_def IdToken_def id_token_kwargs_def test_id_token_message_def py_return_def add_access_token_to_response_def
      empty_response_def create_subject_identifier_def
      check_subject_identifier_matches_requested_def start_def Let_def

subsection \<open>Sequencing\<close>

lemma py_bind_pure_Inr: "py_bind (py_pure (Inr x)) f = f x"
  by (rule ext) (simp add: py_bind_def py_pure_def)

lemma py_bind_pure_Inl: "py_bind (py_pure (Inl e)) f w = (Inl e, w)"
  by (simp add: py_bind_def py_pure_def)

lemma py_bind_call_authz:
  "method (authz_store w) = (Inr x, sa) \<Longrightarrow>
     py_bind (call_authz method) f w = f x (w\<lparr>authz_store := sa\<rparr>)"
  by (simp add: py_bind_def call_authz_def)

lemma py_bind_Inr:
  "py_bind m f w = (Inr y, w') \<longleftrightarrow> (\<exists>x wa. m w = (Inr x, wa) \<and> f x wa = (Inr y, w'))"
  by (auto simp add: py_bind_def split: prod.splits sum.splits)

lemma py_pure_Inr: "py_pure r w = (Inr x, w') \<longleftrightarrow> r = Inr x \<and> w' = w"
  by (auto simp add: py_pure_def)

lemma py_return_Inr: "py_return a w = (Inr x, w') \<longleftrightarrow> x = a \<and> w' = w"
  by (auto simp add: py_return_def)

lemma py_raise_Inr: "py_raise e w = (Inr x, w') \<longleftrightarrow> False"
  by (simp add: py_raise_def)

lemma call_authz_Inr:
  "call_authz method w = (Inr x, w')
     \<longleftrightarrow> (\<exists>s. method (authz_store w) = (Inr x, s) \<and> w' = w\<lparr>authz_store := s\<rparr>)"
  by (auto simp add: call_authz_def split: prod.splits)

lemma call_time_Inr:
  "call_time lib w = (Inr t, w')
     \<longleftrightarrow> t = time_time lib (clock_reads w) \<and> w' = w\<lparr>clock_reads := Suc (clock_reads w)\<rparr>"
  by (auto simp add: call_time_def)

lemma getitem_Inr: "getitem k v = Inr x \<longleftrightarrow> v = Some x"
  by (simp add: getitem_def split: option.splits)

lemma call_authz_clock: "call_authz method w = (r, w') \<Longrightarrow> clock_reads w' = clock_reads w"
  by (auto simp add: call_authz_def split: prod.splits)

lemma py_bind_call_authz_Inl:
  "method (authz_store w) = (Inl e, sa) \<Longrightarrow>
     py_bind (call_authz method) f w = (Inl e, w\<lparr>authz_store := sa\<rparr>)"
  by (simp add: py_bind_def call_authz_def)

subsection \<open>The validator pipeline\<close>

lemma run_validators_prefix:
  "(\<forall>u \<in> set vs. u r = Inr ()) \<Longrightarrow> run_validators (vs @ ws) r = run_validators ws r"
  by (induction vs) auto

text \<open>
  C2.  \<open>parse_authentication_request\<close> runs the six validators on the deserialized
  request in the order schema verify, client known, redirect URI registered, response
  type registered, userinfo-claims/response-type compatibility, scope support: its
  result is the exception of the first validator that raises, and the request when none
  does.  The loop short-circuits: when the validators \<open>vs\<close> return and \<open>v\<close> raises, the
  result is the exception of \<open>v\<close> whatever validators \<open>ws\<close> follow it.
\<close>

theorem parse_authentication_request_pipeline:
  "parse_authentication_request lib p body =
     (let r = deserialize lib body in
      case authorization_request_verify lib r of Inl e \<Rightarrow> Inl e | Inr _ \<Rightarrow>
     (case client_id_is_known p r of Inl e \<Rightarrow> Inl e | Inr _ \<Rightarrow>
     (case redirect_uri_is_in_registered_redirect_uris p r of Inl e \<Rightarrow> Inl e | Inr _ \<Rightarrow>
     (case response_type_is_in_registered_response_types p r of Inl e \<Rightarrow> Inl e | Inr _ \<Rightarrow>
     (case userinfo_claims_only_specified_when_access_token_is_issued r of
        Inl e \<Rightarrow> Inl e | Inr _ \<Rightarrow>
     (case requested_scope_is_supported p r of Inl e \<Rightarrow> Inl e | Inr _ \<Rightarrow> Inr r))))))
   \<and> ((\<forall>u \<in> set vs. u r' = Inr ()) \<and> v r' = Inl e'
        \<longrightarrow> run_validators (vs @ v # ws) r' = Inl e')"
  by (simp add: parse_authentication_request_def authentication_request_validators_def
      run_validators_prefix Let_def split: sum.splits)

text \<open>The request of the unknown client \<open>zz\<close> also has an unregistered redirect URI and
  an unsupported scope; the pipeline raises the exception of the client-known validator,
  the first that fails.\<close>

theorem parse_authentication_request_pipeline_witness:
  "parse_authentication_request test_library test_provider
     ''response_type=code&client_id=zz&redirect_uri=https://evil/cb&scope=openid+writer''
     = Inl (InvalidAuthenticationRequest unknown_client_error)
   \<and> run_validators
        ([authorization_request_verify test_library] @ client_id_is_known test_provider
           # [redirect_uri_is_in_registered_redirect_uris test_provider,
              requested_scope_is_supported test_provider]) evil_request
     = Inl (InvalidAuthenticationRequest unknown_client_error)
   \<and> (\<exists>e. requested_scope_is_supported test_provider evil_request = Inl e)"
proof -
  have verified: "\<forall>u \<in> set [authorization_request_verify test_library]. u evil_request = Inr ()"
    by (simp add: authorization_request_verify_def test_defs)
  have raised: "client_id_is_known test_provider evil_request
                  = Inl (InvalidAuthenticationRequest unknown_client_error)"
    by (simp add: client_id_is_known_def test_defs)
  have scope: "\<exists>e. requested_scope_is_supported test_provider evil_request = Inl e"
    by (simp add: requested_scope_is_supported_def provider_configuration_def test_defs)
  note pipeline = parse_authentication_request_pipeline
    [where lib = test_library and p = test_provider and vs = "[authorization_request_verify test_library]"
       and v = "client_id_is_known test_provider" and r' = evil_request
       and e' = "InvalidAuthenticationRequest unknown_client_error"
       and body = "''response_type=code&client_id=zz&redirect_uri=https://evil/cb&scope=openid+writer''"
       and ws = "[redirect_uri_is_in_registered_redirect_uris test_provider,
                  requested_scope_is_supported test_provider]"]
  have des: "deserialize test_library
               ''response_type=code&client_id=zz&redirect_uri=https://evil/cb&scope=openid+writer''
             = evil_request"
    by (simp add: test_defs)
  from pipeline verified raised scope des show ?thesis
    by (simp add: authorization_request_verify_def test_verify_def evil_request_def
        code_request_def empty_request_def)
qed

subsection \<open>Fragment or query encoding\<close>

text \<open>What the function computes: it compares the list of response types with
  \<open>['code']\<close>, and indexes \<open>response_type\<close>; \<open>to_error_url\<close> passes its result on.\<close>

lemma should_fragment_encode_cases:
  "(response_type r = Some rt \<longrightarrow> should_fragment_encode r = Inr (rt \<noteq> [''code'']))
   \<and> (response_type r = None \<longrightarrow> should_fragment_encode r = Inl (KeyError ''response_type''))
   \<and> (redirect_uri (request e) = Some uri \<and> uri \<noteq> [] \<and> oauth_error e = Some err \<and> err \<noteq> []
        \<and> response_type (request e) = Some rt'
      \<longrightarrow> to_error_url lib e
          = Inr (Some (error_response_request lib err (message e) uri (rt' \<noteq> [''code'']))))"
  by (simp add: should_fragment_encode_def to_error_url_def getitem_def)

text \<open>
  C5.  The claim holds that query encoding is selected exactly when the set of response
  types of the request is \<open>{code}\<close>.  The request \<open>response_type=code code\<close> has that set:
  it passes all six validators, for which the client's registered \<open>['code']\<close> matches as
  a set, and \<open>authorize\<close> issues an authorization code and nothing else, so it is the
  Authorization Code Flow that the comment in \<open>should_fragment_encode\<close> says is query
  encoded.  But the function compares the list with \<open>['code']\<close> and returns \<open>True\<close>: the
  response is fragment encoded.
\<close>

theorem should_fragment_encode_repeated_code:
  "should_fragment_encode repeated_code_request = Inr True
   \<and> response_type repeated_code_request = Some [''code'', ''code'']
   \<and> set [''code'', ''code''] = {''code''}
   \<and> run_validators (authentication_request_validators test_library test_provider)
         repeated_code_request = Inr ()
   \<and> (case authorize test_library test_provider repeated_code_request ''user1'' NoExtraClaims
              start of
        (Inr r, w) \<Rightarrow> resp_code r = Some ''c'' \<and> resp_access_token r = None
                       \<and> resp_id_token r = None
      | (Inl e, w) \<Rightarrow> False)"
proof -
  have validators:
    "run_validators (authentication_request_validators test_library test_provider)
       repeated_code_request = Inr ()"
    by (simp add: authentication_request_validators_def authorization_request_verify_def
        client_id_is_known_def redirect_uri_is_in_registered_redirect_uris_def
        response_type_is_in_registered_response_types_def
        userinfo_claims_only_specified_when_access_token_is_issued_def
        requested_scope_is_supported_def provider_configuration_def test_defs)
  have run:
    "(case authorize test_library test_provider repeated_code_request ''user1'' NoExtraClaims
              start of
        (Inr r, w) \<Rightarrow> resp_code r = Some ''c'' \<and> resp_access_token r = None
                       \<and> resp_id_token r = None
      | (Inl e, w) \<Rightarrow> False)"
    by (simp add: authorize_run_defs)
  have encode: "should_fragment_encode repeated_code_request = Inr True"
    "response_type repeated_code_request = Some [''code'', ''code'']"
    by (simp_all add: should_fragment_encode_def test_defs)
  from validators run encode show ?thesis by simp
qed

text \<open>
  C10.  \<open>to_error_url\<close> returns \<open>None\<close> whenever the request has no (or an empty)
  \<open>redirect_uri\<close> or the exception has no (or an empty) \<open>oauth_error\<close>, whatever the other
  fields are.  When both are there it indexes \<open>response_type\<close>, and raises \<open>KeyError\<close> when
  the request has none: the exception that schema verification raises for a request with
  a \<open>redirect_uri\<close> and without \<open>response_type\<close> carries \<open>invalid_request\<close> and is not
  converted to an error URL.
\<close>

theorem to_error_url_needs_response_type:
  "(\<not> truthy_str (redirect_uri (request e)) \<or> \<not> truthy_str (oauth_error e)
      \<longrightarrow> to_error_url lib e = Inr None)
   \<and> (truthy_str (redirect_uri (request e)) \<and> truthy_str (oauth_error e)
        \<and> response_type (request e) = None
      \<longrightarrow> to_error_url lib e = Inl (KeyError ''response_type''))
   \<and> ((request_verify lib r = MissingRequiredAttribute m
         \<or> request_verify lib r = MissingRequiredValue m)
        \<and> truthy_str (redirect_uri r) \<and> response_type r = None
      \<longrightarrow> authorization_request_verify lib r
            = Inl (InvalidAuthenticationRequest
                     \<lparr>message = m, request = r, oauth_error = Some ''invalid_request''\<rparr>)
          \<and> to_error_url lib \<lparr>message = m, request = r, oauth_error = Some ''invalid_request''\<rparr>
            = Inl (KeyError ''response_type''))"
  by (auto simp add: should_fragment_encode_def to_error_url_def getitem_def
      authorization_request_verify_def split: option.splits)

theorem to_error_url_needs_response_type_witness:
  "to_error_url test_library
     \<lparr>message = ''m'', request = code_request\<lparr>redirect_uri := None\<rparr>,
      oauth_error = Some ''invalid_request''\<rparr> = Inr None
   \<and> authorization_request_verify test_library (code_request\<lparr>response_type := None\<rparr>)
     = Inl (InvalidAuthenticationRequest
              \<lparr>message = ''response_type'', request = code_request\<lparr>response_type := None\<rparr>,
               oauth_error = Some ''invalid_request''\<rparr>)
   \<and> to_error_url test_library
        \<lparr>message = ''response_type'', request = code_request\<lparr>response_type := None\<rparr>,
         oauth_error = Some ''invalid_request''\<rparr>
     = Inl (KeyError ''response_type'')"
  using to_error_url_needs_response_type
    [where lib = test_library and r = "code_request\<lparr>response_type := None\<rparr>"
       and m = "''response_type''"
       and e = "\<lparr>message = ''m'', request = code_request\<lparr>redirect_uri := None\<rparr>,
                  oauth_error = Some ''invalid_request''\<rparr>"]
  by (simp add: test_defs)

subsection \<open>Error redirects\<close>

text \<open>What \<open>to_error_url\<close> computes from the fields of the exception, and what the
  redirect-URI validator does to keep its own exception from a redirect: it raises
  without \<open>oauth_error\<close>.\<close>

lemma to_error_url_cases:
  "(to_error_url lib e = Inr (Some u)
      \<longleftrightarrow> (\<exists>uri err rt. redirect_uri (request e) = Some uri \<and> uri \<noteq> []
              \<and> oauth_error e = Some err \<and> err \<noteq> []
              \<and> response_type (request e) = Some rt
              \<and> u = error_response_request lib err (message e) uri (rt \<noteq> [''code''])))
   \<and> (to_error_url lib e = Inr None
      \<longleftrightarrow> \<not> (truthy_str (redirect_uri (request e)) \<and> truthy_str (oauth_error e)))
   \<and> (redirect_uri_is_in_registered_redirect_uris p r = Inl (InvalidAuthenticationRequest e')
      \<longrightarrow> to_error_url lib e' = Inr None)"
proof (intro conjI)
  show "to_error_url lib e = Inr (Some u)
      \<longleftrightarrow> (\<exists>uri err rt. redirect_uri (request e) = Some uri \<and> uri \<noteq> []
              \<and> oauth_error e = Some err \<and> err \<noteq> []
              \<and> response_type (request e) = Some rt
              \<and> u = error_response_request lib err (message e) uri (rt \<noteq> [''code'']))"
    by (auto simp add: to_error_url_def should_fragment_encode_def getitem_def
        split: option.splits)
  show "to_error_url lib e = Inr None
      \<longleftrightarrow> \<not> (truthy_str (redirect_uri (request e)) \<and> truthy_str (oauth_error e))"
    by (auto simp add: to_error_url_def should_fragment_encode_def getitem_def
        split: option.splits)
  show "redirect_uri_is_in_registered_redirect_uris p r = Inl (InvalidAuthenticationRequest e')
      \<longrightarrow> to_error_url lib e' = Inr None"
    by (auto simp add: redirect_uri_is_in_registered_redirect_uris_def to_error_url_def
        getitem_def Let_def split: option.splits if_splits)
qed

text \<open>Where the claim holds: once the redirect-URI validator has passed, the exception
  of any later validator is about a request whose redirect URI is registered for its
  client.\<close>

lemma redirect_uri_registered:
  assumes "redirect_uri_is_in_registered_redirect_uris p r = Inr ()"
  shows "\<exists>uri cid c uris. redirect_uri r = Some uri \<and> client_id r = Some cid
           \<and> clients p cid = Some c \<and> redirect_uris c = Some uris \<and> uri \<in> set uris"
  using assms
  by (simp add: redirect_uri_is_in_registered_redirect_uris_def getitem_def Let_def
      split: option.splits if_splits)

lemma response_type_validator_request:
  "response_type_is_in_registered_response_types p r = Inl (InvalidAuthenticationRequest e)
   \<Longrightarrow> request e = r"
  by (simp add: response_type_is_in_registered_response_types_def getitem_def Let_def
      split: option.splits if_splits) auto

lemma userinfo_claims_validator_request:
  "userinfo_claims_only_specified_when_access_token_is_issued r
     = Inl (InvalidAuthenticationRequest e) \<Longrightarrow> request e = r"
  by (simp add: userinfo_claims_only_specified_when_access_token_is_issued_def getitem_def
      split: option.splits if_splits) auto

lemma scope_validator_request:
  "requested_scope_is_supported p r = Inl (InvalidAuthenticationRequest e) \<Longrightarrow> request e = r"
  by (simp add: requested_scope_is_supported_def getitem_def Let_def
      split: option.splits if_splits) auto

lemma later_validators_registered:
  assumes "redirect_uri_is_in_registered_redirect_uris p r = Inr ()"
    and "response_type_is_in_registered_response_types p r = Inl (InvalidAuthenticationRequest e)
         \<or> userinfo_claims_only_specified_when_access_token_is_issued r
             = Inl (InvalidAuthenticationRequest e)
         \<or> requested_scope_is_supported p r = Inl (InvalidAuthenticationRequest e)"
  shows "\<exists>uri cid c uris. redirect_uri (request e) = Some uri \<and> client_id (request e) = Some cid
           \<and> clients p cid = Some c \<and> redirect_uris c = Some uris \<and> uri \<in> set uris"
proof -
  from assms(2) have "request e = r"
    using response_type_validator_request userinfo_claims_validator_request
      scope_validator_request by blast
  with redirect_uri_registered[OF assms(1)] show ?thesis by simp
qed

text \<open>
  C3.  The claim holds that an \<open>InvalidAuthenticationRequest\<close> is converted to a
  redirect-back URL only if the redirect URI is registered for the client, which is what
  the redirect-URI validator provides for by raising without \<open>oauth_error\<close>.  The
  validators that run before it raise with an \<open>oauth_error\<close>: for the request of the
  unknown client \<open>zz\<close> the client-known validator raises with \<open>unauthorized_client\<close>, and
  for a request of the registered client \<open>c1\<close> that fails the schema check the first
  validator raises with \<open>invalid_request\<close>; both exceptions are converted to a redirect to
  \<open>https://evil/cb\<close>, which is registered for nobody.
\<close>

theorem to_error_url_redirects_to_unregistered_uri:
  "parse_authentication_request test_library test_provider
     ''response_type=code&client_id=zz&redirect_uri=https://evil/cb&scope=openid+writer''
     = Inl (InvalidAuthenticationRequest unknown_client_error)
   \<and> to_error_url test_library unknown_client_error
     = Inr (Some (''https://evil/cb?error=unauthorized_client&error_message=Unknown client_id ''
                  @ quoted ''zz''))
   \<and> clients test_provider ''zz'' = None
   \<and> run_validators (authentication_request_validators test_library test_provider)
        evil_known_request
     = Inl (InvalidAuthenticationRequest
              \<lparr>message = ''openid'', request = evil_known_request,
               oauth_error = Some ''invalid_request''\<rparr>)
   \<and> to_error_url test_library
        \<lparr>message = ''openid'', request = evil_known_request,
         oauth_error = Some ''invalid_request''\<rparr>
     = Inr (Some ''https://evil/cb?error=invalid_request&error_message=openid'')
   \<and> redirect_uri_is_in_registered_redirect_uris test_provider evil_known_request
     = Inl (InvalidAuthenticationRequest
              \<lparr>message = ''Redirect uri '' @ quoted ''https://evil/cb'' @ '' is not registered'',
               request = evil_known_request, oauth_error = None\<rparr>)"
  by (simp add: parse_authentication_request_def authentication_request_validators_def
      authorization_request_verify_def client_id_is_known_def to_error_url_def
      redirect_uri_is_in_registered_redirect_uris_def should_fragment_encode_def test_defs)

subsection \<open>Userinfo claims and the response type\<close>

text \<open>What the validator computes: it compares the list of response types with
  \<open>['id_token']\<close>.\<close>

lemma userinfo_claims_validator_cases:
  "response_type r = Some rt \<longrightarrow>
     userinfo_claims_only_specified_when_access_token_is_issued r
       = (if rt = [''id_token''] \<and> (\<exists>c u. claims r = Some c \<and> cr_userinfo c = Some u)
          then Inl (InvalidAuthenticationRequest
                      \<lparr>message = ''Userinfo claims cannot be requested, when response_type=''
                                 @ quoted ''id_token'',
                       request = r, oauth_error = Some ''invalid_request''\<rparr>)
          else Inr ())
     \<and> ((\<exists>x \<in> set rt. x \<noteq> ''id_token'')
          \<longrightarrow> userinfo_claims_only_specified_when_access_token_is_issued r = Inr ())"
  by (auto simp add: userinfo_claims_only_specified_when_access_token_is_issued_def getitem_def
      split: option.splits)

text \<open>
  C8.  The claim holds that validation fails when the request has a \<open>claims.userinfo\<close>
  member and the set of its response types is \<open>{id_token}\<close>, the case in which no access
  token is issued.  The request \<open>response_type=id_token id_token\<close> with a
  \<open>claims.userinfo\<close> member has that set, and \<open>authorize\<close> issues neither an access token
  nor a code for it.  But the validator compares the list with \<open>['id_token']\<close>: it
  passes, and so does the whole pipeline.
\<close>

theorem userinfo_claims_validator_repeated_id_token:
  "userinfo_claims_only_specified_when_access_token_is_issued repeated_id_token_request = Inr ()
   \<and> response_type repeated_id_token_request = Some [''id_token'', ''id_token'']
   \<and> set [''id_token'', ''id_token''] = {''id_token''}
   \<and> (\<exists>c u. claims repeated_id_token_request = Some c \<and> cr_userinfo c = Some u)
   \<and> run_validators (authentication_request_validators test_library test_provider)
         repeated_id_token_request = Inr ()
   \<and> (case authorize test_library test_provider repeated_id_token_request ''user1''
              NoExtraClaims start of
        (Inr r, w) \<Rightarrow> resp_access_token r = None \<and> resp_code r = None
      | (Inl e, w) \<Rightarrow> False)"
proof -
  have validators:
    "run_validators (authentication_request_validators test_library test_provider)
       repeated_id_token_request = Inr ()"
    by (simp add: authentication_request_validators_def authorization_request_verify_def
        client_id_is_known_def redirect_uri_is_in_registered_redirect_uris_def
        response_type_is_in_registered_response_types_def
        userinfo_claims_only_specified_when_access_token_is_issued_def
        requested_scope_is_supported_def provider_configuration_def test_defs)
  have run:
    "(case authorize test_library test_provider repeated_id_token_request ''user1''
              NoExtraClaims start of
        (Inr r, w) \<Rightarrow> resp_access_token r = None \<and> resp_code r = None
      | (Inl e, w) \<Rightarrow> False)"
    by (simp add: authorize_run_defs dict_get_def py_or_def)
  have validator:
    "userinfo_claims_only_specified_when_access_token_is_issued repeated_id_token_request = Inr ()"
    "response_type repeated_id_token_request = Some [''id_token'', ''id_token'']"
    "\<exists>c u. claims repeated_id_token_request = Some c \<and> cr_userinfo c = Some u"
    by (simp_all add: userinfo_claims_only_specified_when_access_token_is_issued_def test_defs)
  from validators run validator show ?thesis by simp
qed

subsection \<open>The authorization-code exchange\<close>

lemma do_code_exchange_checked:
  assumes "token_request_verify lib (token_request_from_dict lib req) = Verified"
    and "token_request_from_dict lib req ''code'' = Some code"
    and "get_authorization_request_for_code (authz_state p) code (authz_store w) = (Inr ar, sa)"
    and "token_request_from_dict lib req ''redirect_uri'' = Some tu"
    and "redirect_uri ar = Some ou"
  shows "do_code_exchange lib p req extra w =
           (if tu \<noteq> ou then
              (Inl (InvalidTokenRequest (''Invalid redirect_uri: '' @ tu @ '' != '' @ ou)
                      ''invalid_request''), w\<lparr>authz_store := sa\<rparr>)
            else do_code_exchange_rest lib p code ar extra (w\<lparr>authz_store := sa\<rparr>))"
  using assms
  by (simp add: do_code_exchange_def Let_def py_bind_pure_Inr getitem_def
      py_bind_call_authz py_raise_def)

text \<open>
  C6.  In the authorization-code exchange, once the token request passed the schema
  check and the original authorization request was retrieved for its code: if the token
  request's \<open>redirect_uri\<close> differs from the original's, the handler raises
  \<open>InvalidTokenRequest\<close>; if they are equal, the exchange proceeds with the rest of the
  method.
\<close>

theorem do_code_exchange_redirect_uri_check:
  "token_request_verify lib (token_request_from_dict lib req) = Verified
   \<and> token_request_from_dict lib req ''code'' = Some code
   \<and> get_authorization_request_for_code (authz_state p) code (authz_store w) = (Inr ar, sa)
   \<and> token_request_from_dict lib req ''redirect_uri'' = Some tu
   \<and> redirect_uri ar = Some ou
   \<longrightarrow> (tu \<noteq> ou \<longrightarrow>
          fst (do_code_exchange lib p req extra w)
            = Inl (InvalidTokenRequest (''Invalid redirect_uri: '' @ tu @ '' != '' @ ou)
                     ''invalid_request''))
     \<and> (tu = ou \<longrightarrow>
          do_code_exchange lib p req extra w
            = do_code_exchange_rest lib p code ar extra (w\<lparr>authz_store := sa\<rparr>))"
  by (simp add: do_code_exchange_checked)

lemma do_code_exchange_rest_run:
  "(case do_code_exchange_rest test_library test_provider ''c'' code_request NoExtraClaims
         store_with_code of
      (Inr r, w) \<Rightarrow> resp_access_token r = Some ''t'' \<and> resp_refresh_token r = Some ''rt''
          \<and> codes (authz_store w) = []
    | (Inl e, w) \<Rightarrow> False)"
  by (simp add: do_code_exchange_rest_def run_defs py_bind_def call_authz_def py_pure_def
      resolve_extra_id_token_claims_def get_requested_claims_in_def create_signed_id_token_def
      first_def call_time_def IdToken_def id_token_kwargs_def test_id_token_message_def py_return_def add_access_token_to_response_def
      empty_response_def Let_def)

text \<open>With a trailing slash the exchange is refused; with the very same URI it goes on
  and returns an access token and a refresh token.\<close>

theorem do_code_exchange_redirect_uri_check_witness:
  "fst (do_code_exchange test_library test_provider bad_token_request NoExtraClaims store_with_code)
     = Inl (InvalidTokenRequest ''Invalid redirect_uri: https://rp/cb/ != https://rp/cb''
              ''invalid_request'')
   \<and> do_code_exchange test_library test_provider good_token_request NoExtraClaims store_with_code
     = do_code_exchange_rest test_library test_provider ''c'' code_request NoExtraClaims
         store_with_code
   \<and> (case do_code_exchange test_library test_provider good_token_request NoExtraClaims
             store_with_code of
        (Inr r, w) \<Rightarrow> resp_access_token r = Some ''t'' \<and> resp_refresh_token r = Some ''rt''
            \<and> codes (authz_store w) = []
      | (Inl e, w) \<Rightarrow> False)"
proof -
  note bad = do_code_exchange_redirect_uri_check
    [where lib = test_library and p = test_provider and req = bad_token_request
       and w = store_with_code and code = "''c''" and ar = code_request
       and sa = "authz_store store_with_code" and tu = "''https://rp/cb/''"
       and ou = "''https://rp/cb''" and extra = NoExtraClaims]
  note good = do_code_exchange_redirect_uri_check
    [where lib = test_library and p = test_provider and req = good_token_request
       and w = store_with_code and code = "''c''" and ar = code_request
       and sa = "authz_store store_with_code" and tu = "''https://rp/cb''"
       and ou = "''https://rp/cb''" and extra = NoExtraClaims]
  from bad have 1:
    "fst (do_code_exchange test_library test_provider bad_token_request NoExtraClaims
            store_with_code)
       = Inl (InvalidTokenRequest ''Invalid redirect_uri: https://rp/cb/ != https://rp/cb''
                ''invalid_request'')"
    by (simp add: run_defs)
  from good have 2:
    "do_code_exchange test_library test_provider good_token_request NoExtraClaims store_with_code
       = do_code_exchange_rest test_library test_provider ''c'' code_request NoExtraClaims
           store_with_code"
    by (simp add: run_defs)
  from 1 2 do_code_exchange_rest_run show ?thesis by simp
qed

text \<open>
  C9.  The comparison of the redirect URIs comes before \<open>exchange_code_for_token\<close>: when
  the exchange fails on a mismatch, the only method of the authorization state that was
  called is the retrieval of the original request, and the store is the one that
  retrieval left.  The result is the same whatever \<open>exchange_code_for_token\<close>,
  \<open>create_refresh_token\<close> and \<open>create_access_token\<close> would do, so the code is not consumed
  and no token is created; when the retrieval does not change the store, the world after
  the failure is the world before.
\<close>

theorem do_code_exchange_mismatch_leaves_store:
  "token_request_verify lib (token_request_from_dict lib req) = Verified
   \<and> token_request_from_dict lib req ''code'' = Some code
   \<and> get_authorization_request_for_code (authz_state p) code (authz_store w) = (Inr ar, sa)
   \<and> token_request_from_dict lib req ''redirect_uri'' = Some tu
   \<and> redirect_uri ar = Some ou \<and> tu \<noteq> ou
   \<longrightarrow> do_code_exchange lib
         (p\<lparr>authz_state := (authz_state p)\<lparr>exchange_code_for_token := exchange,
                                            create_refresh_token := refresh,
                                            create_access_token := create\<rparr>\<rparr>)
         req extra w
       = (Inl (InvalidTokenRequest (''Invalid redirect_uri: '' @ tu @ '' != '' @ ou)
                 ''invalid_request''), w\<lparr>authz_store := sa\<rparr>)
     \<and> do_code_exchange lib p req extra w
       = (Inl (InvalidTokenRequest (''Invalid redirect_uri: '' @ tu @ '' != '' @ ou)
                 ''invalid_request''), w\<lparr>authz_store := sa\<rparr>)
     \<and> (sa = authz_store w \<longrightarrow> snd (do_code_exchange lib p req extra w) = w)"
  by (simp add: do_code_exchange_checked)

text \<open>With methods that would wipe the store if they were called, the failed exchange
  leaves the store as it was, the code \<open>c\<close> still in it.\<close>

theorem do_code_exchange_mismatch_leaves_store_witness:
  "do_code_exchange test_library poisoned_provider bad_token_request NoExtraClaims store_with_code
     = (Inl (InvalidTokenRequest ''Invalid redirect_uri: https://rp/cb/ != https://rp/cb''
               ''invalid_request''), store_with_code)
   \<and> snd (do_code_exchange test_library test_provider bad_token_request NoExtraClaims
             store_with_code) = store_with_code
   \<and> map fst (codes (authz_store store_with_code)) = [''c'']
   \<and> tokens (authz_store store_with_code) = []
   \<and> refresh_tokens (authz_store store_with_code) = []"
  using do_code_exchange_mismatch_leaves_store
    [where lib = test_library and p = test_provider and req = bad_token_request
       and w = store_with_code and code = "''c''" and ar = code_request
       and sa = "authz_store store_with_code" and tu = "''https://rp/cb/''"
       and ou = "''https://rp/cb''" and extra = NoExtraClaims
       and exchange = "\<lambda>c. poison" and refresh = "\<lambda>v. poison" and create = "\<lambda>r sub. poison"]
  by (simp add: run_defs)

subsection \<open>Userinfo\<close>

text \<open>
  C7.  For a userinfo request whose bearer token introspects as active: the claims that
  are requested from the user-info source are the scope-to-claims mapping of the token's
  scope updated with the \<open>claims.userinfo\<close> entries of the original authorization
  request, so their names are the union of the two and an entry of \<open>claims.userinfo\<close>
  keeps its metadata; and an object that is returned carries the \<open>sub\<close> of the
  introspection result.
\<close>

theorem handle_userinfo_request_claims:
  "extract_bearer_token_from_http_request lib request_arg http_headers = Inr bearer_token
   \<and> introspect_access_token (authz_state p) bearer_token (authz_store w) = (Inr introspection, sa)
   \<and> intro_active introspection = Some True
   \<and> intro_scope introspection = Some sc
   \<and> intro_sub introspection = Some sub
   \<and> get_user_id_for_subject_identifier (authz_state p) sub sa = (Inr user_id, sb)
   \<and> get_authorization_request_for_access_token (authz_state p) bearer_token sb = (Inr ar, sd)
   \<longrightarrow> (\<exists>from_request.
          get_requested_claims_in ar ''userinfo'' = Inr from_request
        \<and> from_request = (case claims ar of
                             None \<Rightarrow> Map.empty
                           | Some c \<Rightarrow> (case cr_userinfo c of None \<Rightarrow> Map.empty | Some m \<Rightarrow> m))
        \<and> handle_userinfo_request lib p request_arg http_headers w
            = (OpenIDSchema sub
                 (get_claims_for p user_id (scope2claims lib (str_split lib sc) ++ from_request)),
               w\<lparr>authz_store := sd\<rparr>)
        \<and> dom (scope2claims lib (str_split lib sc) ++ from_request)
            = dom (scope2claims lib (str_split lib sc)) \<union> dom from_request
        \<and> (\<forall>k \<in> dom from_request.
              (scope2claims lib (str_split lib sc) ++ from_request) k = from_request k)
        \<and> (\<forall>response w'.
              handle_userinfo_request lib p request_arg http_headers w = (Inr response, w')
              \<longrightarrow> response ''sub'' = Some (JStr sub)))"
  by (auto simp add: handle_userinfo_request_def py_bind_pure_Inr py_bind_call_authz getitem_def
      get_requested_claims_in_def Let_def py_pure_def OpenIDSchema_def map_add_dom_app_simps
      split: option.splits)

text \<open>The token \<open>t\<close> was issued for the scopes \<open>openid email\<close> and a request that asks for
  \<open>name\<close> in \<open>claims.userinfo\<close>: the response has \<open>email\<close>, \<open>name\<close> and the \<open>sub\<close> of the
  introspection.\<close>

theorem handle_userinfo_request_claims_witness:
  "(case handle_userinfo_request test_library test_provider None
          (Some [''Authorization'' \<mapsto> ''Bearer t'']) store_with_token of
      (Inr r, w) \<Rightarrow> r ''sub'' = Some (JStr ''pairwise:user1@rp'')
          \<and> r ''email'' = Some (JStr ''user1@example.com'')
          \<and> r ''name'' = Some (JStr ''User One'')
          \<and> w = store_with_token
    | (Inl e, w) \<Rightarrow> False)"
proof -
  let ?introspection = "\<lparr>intro_active = Some True, intro_scope = Some ''openid email'',
                          intro_sub = Some ''pairwise:user1@rp''\<rparr>"
  have split: "str_split test_library ''openid email'' = [''openid'', ''email'']"
    by (simp add: test_library_def test_split_def)
  have hyps:
    "extract_bearer_token_from_http_request test_library None
        (Some [''Authorization'' \<mapsto> ''Bearer t'']) = Inr ''t''
     \<and> introspect_access_token (authz_state test_provider) ''t'' (authz_store store_with_token)
         = (Inr ?introspection, authz_store store_with_token)
     \<and> intro_active ?introspection = Some True
     \<and> intro_scope ?introspection = Some ''openid email''
     \<and> intro_sub ?introspection = Some ''pairwise:user1@rp''
     \<and> get_user_id_for_subject_identifier (authz_state test_provider) ''pairwise:user1@rp''
           (authz_store store_with_token) = (Inr ''user1'', authz_store store_with_token)
     \<and> get_authorization_request_for_access_token (authz_state test_provider) ''t''
           (authz_store store_with_token) = (Inr userinfo_request, authz_store store_with_token)"
    by (simp add: run_defs)
  from handle_userinfo_request_claims[THEN mp, OF hyps]
  obtain from_request where
    fr: "from_request = (case claims userinfo_request of
                           None \<Rightarrow> Map.empty
                         | Some c \<Rightarrow> (case cr_userinfo c of None \<Rightarrow> Map.empty | Some m \<Rightarrow> m))"
    and run: "handle_userinfo_request test_library test_provider None
                (Some [''Authorization'' \<mapsto> ''Bearer t'']) store_with_token
            = (OpenIDSchema ''pairwise:user1@rp''
                 (get_claims_for test_provider ''user1''
                    (scope2claims test_library (str_split test_library ''openid email'')
                     ++ from_request)),
               store_with_token\<lparr>authz_store := authz_store store_with_token\<rparr>)"
    by (elim exE conjE)
  have fr': "from_request = [''name'' \<mapsto> JObj [(''essential'', JBool True)]]"
    unfolding fr by (simp add: userinfo_request_def code_request_def empty_request_def)
  let ?claims = "get_claims_for test_provider ''user1''
                    (scope2claims test_library [''openid'', ''email'']
                     ++ [''name'' \<mapsto> JObj [(''essential'', JBool True)]])"
  have gc: "get_claims_for test_provider = test_userinfo"
    by (simp add: test_provider_def Provider_def)
  have s2c: "scope2claims test_library = test_scope2claims"
    by (simp add: test_library_def)
  have no_sub: "?claims ''sub'' = None"
    unfolding gc s2c by (simp add: test_userinfo_def test_scope2claims_def)
  have email: "?claims ''email'' = Some (JStr ''user1@example.com'')"
    unfolding gc s2c by (simp add: test_userinfo_def test_scope2claims_def)
  have name: "?claims ''name'' = Some (JStr ''User One'')"
    unfolding gc s2c by (simp add: test_userinfo_def test_scope2claims_def)
  have schema: "OpenIDSchema ''pairwise:user1@rp'' ?claims
                  = Inr (?claims(''sub'' \<mapsto> JStr ''pairwise:user1@rp''))"
    using no_sub by (simp add: OpenIDSchema_def)
  show ?thesis
    unfolding run fr' split schema
    using email name by simp
qed

subsection \<open>The payload of the ID Token\<close>

lemma IdToken_Inr:
  "IdToken lib i s a t e args = Inr P \<Longrightarrow>
     id_token_message lib (id_token_kwargs i s a t e args) = Inr P"
  by (simp add: IdToken_def split: list.splits)

lemma id_token_kwargs_simps:
  "id_token_kwargs i s a t e args ''iss'' = Some (JStr i)"
  "id_token_kwargs i s a t e args ''sub'' = Some (JStr s)"
  "id_token_kwargs i s a t e args ''aud'' = Some (JStr a)"
  "id_token_kwargs i s a t e args ''iat'' = Some (JNum t)"
  "id_token_kwargs i s a t e args ''exp'' = Some (JNum e)"
  "id_token_kwargs i s a t e args ''nonce'' = args ''nonce''"
  "id_token_kwargs i s a t e args ''c_hash'' = args ''c_hash''"
  "id_token_kwargs i s a t e args ''at_hash'' = args ''at_hash''"
  by (simp_all add: id_token_kwargs_def)

lemma create_signed_id_token_message:
  assumes "create_signed_id_token lib p cid sub uc nonce_arg code atv extra w = (Inr tok, w')"
  shows "\<exists>iss kwargs msg.
           issuer (configuration_information p) = Some iss
         \<and> id_token_message lib kwargs = Inr msg
         \<and> (case nonce_arg of
               None \<Rightarrow> Inr msg
             | Some n \<Rightarrow> if n \<noteq> [] then message_setitem lib msg ''nonce'' (JStr n) else Inr msg)
             = Inr (jws_payload tok)
         \<and> kwargs ''iss'' = Some (JStr iss)
         \<and> kwargs ''aud'' = Some (JStr cid)
         \<and> kwargs ''sub'' = Some (JStr sub)
         \<and> kwargs ''iat'' = Some (JNum (time_time lib (clock_reads w)))
         \<and> kwargs ''exp''
             = Some (JNum (time_time lib (Suc (clock_reads w)) + real_of_int (id_token_lifetime p)))
         \<and> ((kwargs ''nonce'' \<noteq> None) = ((uc ++ extra) ''nonce'' \<noteq> None))
         \<and> ((kwargs ''c_hash'' \<noteq> None)
              = (truthy_str code \<or> (uc ++ extra) ''c_hash'' \<noteq> None))
         \<and> ((kwargs ''at_hash'' \<noteq> None)
              = (truthy_str atv \<or> (uc ++ extra) ''at_hash'' \<noteq> None))"
  using assms
  apply (simp only: create_signed_id_token_def py_bind_Inr py_pure_Inr py_return_Inr
      call_time_Inr getitem_Inr Let_def)
  apply (elim exE conjE)
  apply (drule IdToken_Inr)
  apply hypsubst
  apply (rule exI, rule exI, rule exI)
  apply (rule conjI, assumption)
  apply (rule conjI, assumption)
  apply (simp add: id_token_kwargs_simps map_add_def split: option.splits)
  done

lemma create_subject_identifier_clock:
  "create_subject_identifier lib p uid cid uri w = (Inr sub, w') \<Longrightarrow> clock_reads w' = clock_reads w"
  by (auto simp add: create_subject_identifier_def py_bind_Inr py_pure_Inr Let_def
      dest: call_authz_clock)

lemma code_block:
  "(if b then py_bind (call_authz m)
               (\<lambda>c. py_return (Some c, empty_response\<lparr>resp_code := Some c\<rparr>))
    else py_return (None, empty_response)) w = (Inr x, wa)
   \<Longrightarrow> clock_reads wa = clock_reads w \<and> resp_code (snd x) = fst x
       \<and> resp_access_token (snd x) = None \<and> resp_id_token (snd x) = None"
  by (auto simp add: py_bind_Inr py_return_Inr call_authz_Inr empty_response_def
      split: if_splits)

lemma token_block:
  "(if b then py_bind (call_authz m)
               (\<lambda>t. py_return (Some (token_value t), add_access_token_to_response r t))
    else py_return (None, r)) w = (Inr x, wa)
   \<Longrightarrow> clock_reads wa = clock_reads w \<and> resp_code (snd x) = resp_code r
       \<and> (resp_access_token r = None \<longrightarrow> resp_access_token (snd x) = fst x)
       \<and> resp_id_token (snd x) = resp_id_token r"
  by (auto simp add: py_bind_Inr py_return_Inr call_authz_Inr add_access_token_to_response_def
      split: if_splits)

lemma id_token_block:
  "(if b then
      py_bind (py_pure e)
        (\<lambda>extra.
      py_bind (py_pure g)
        (\<lambda>rc0.
      py_bind (if c then py_bind (py_pure s) (\<lambda>sc. py_return (rc0 ++ f sc))
               else py_return rc0)
        (\<lambda>rc. (let uc = h rc in
      py_bind (sign uc extra) (\<lambda>t. py_return (r\<lparr>resp_id_token := Some t\<rparr>))))))
    else py_return r) w = (Inr x, wa)
   \<Longrightarrow> resp_code x = resp_code r \<and> resp_access_token x = resp_access_token r
       \<and> (resp_id_token r = None \<longrightarrow> resp_id_token x = Some tok
            \<longrightarrow> (\<exists>ex rc. e = Inr ex \<and> sign (h rc) ex w = (Inr tok, wa)))"
  by (auto simp add: py_bind_Inr py_return_Inr py_pure_Inr Let_def split: if_splits)

lemma authorize_id_token:
  assumes "authorize lib p req uid extra w = (Inr resp, w')"
    and "resp_id_token resp = Some tok"
  shows "\<exists>cid sub rc ex wa wb.
           client_id req = Some cid
         \<and> resolve_extra_id_token_claims extra uid req = Inr ex
         \<and> clock_reads wa = clock_reads w
         \<and> create_signed_id_token lib p cid sub (get_claims_for p uid rc) (nonce req)
               (resp_code resp) (resp_access_token resp) ex wa = (Inr tok, wb)"
  using assms
  apply (simp only: authorize_def case_prod_beta py_bind_Inr py_pure_Inr py_return_Inr getitem_Inr)
  apply (elim exE conjE)
  apply (drule create_subject_identifier_clock)
  apply (drule code_block)
  apply (drule token_block)
  apply (drule id_token_block[where tok = tok])
  apply (cases "state req")
   apply (fastforce)+
  done


lemma do_code_exchange_rest_id_token:
  assumes "do_code_exchange_rest lib p code ar extra w = (Inr resp, w')"
  shows "\<exists>tok cid sub uid rc ex a wa wb.
           resp_id_token resp = Some tok \<and> client_id ar = Some cid
         \<and> resolve_extra_id_token_claims extra uid ar = Inr ex
         \<and> clock_reads wa = clock_reads w
         \<and> resp_code resp = None \<and> resp_access_token resp = Some a
         \<and> create_signed_id_token lib p cid sub (get_claims_for p uid rc) (nonce ar)
               None (Some a) ex wa = (Inr tok, wb)"
  using assms
  apply (simp only: do_code_exchange_rest_def Let_def py_bind_Inr py_pure_Inr py_return_Inr
      getitem_Inr)
  apply (elim exE conjE)
  apply (drule call_authz_clock)+
  apply (simp add: empty_response_def add_access_token_to_response_def)
  apply fastforce
  done

lemma do_code_exchange_Inr:
  assumes "do_code_exchange lib p params extra w = (Inr resp, w')"
  shows "\<exists>code ar sa.
           token_request_from_dict lib params ''code'' = Some code
         \<and> get_authorization_request_for_code (authz_state p) code (authz_store w) = (Inr ar, sa)
         \<and> do_code_exchange_rest lib p code ar extra (w\<lparr>authz_store := sa\<rparr>) = (Inr resp, w')"
  using assms
  apply (simp only: do_code_exchange_def Let_def py_bind_Inr py_pure_Inr call_authz_Inr
      getitem_Inr)
  apply (elim exE conjE)
  apply (simp add: py_raise_def split: if_splits)
  done


lemma test_userinfo_reserved:
  "test_userinfo u rc ''nonce'' = None \<and> test_userinfo u rc ''c_hash'' = None
   \<and> test_userinfo u rc ''at_hash'' = None"
  by (simp add: test_userinfo_def split: option.splits)

lemma hybrid_run:
  "(case authorize steady_library test_provider hybrid_request ''user1'' NoExtraClaims start of
      (Inr r, w) \<Rightarrow>
        (case resp_id_token r of
           Some t \<Rightarrow> resp_code r = Some ''c'' \<and> resp_access_token r = None
         | None \<Rightarrow> False)
    | (Inl e, w) \<Rightarrow> False)"
  by (simp add: authorize_run_defs hybrid_request_def steady_library_def)

lemma exchange_run:
  "(case do_code_exchange steady_library test_provider good_token_request NoExtraClaims
           store_with_code of
      (Inr r, w) \<Rightarrow> resp_access_token r = Some ''t''
    | (Inl e, w) \<Rightarrow> False)"
  by (simp add: do_code_exchange_def do_code_exchange_rest_def authorize_run_defs
      steady_library_def py_raise_def)

text \<open>
  C1, as claimed, fails.  For \<open>response_type=id_token\<close> no code and no access token are
  issued and the request has no nonce, yet the token carries the \<open>nonce\<close>, \<open>c_hash\<close> and
  \<open>at_hash\<close> of the extra claims, which are merged into the keyword arguments of the
  message.  And \<open>iat\<close> and \<open>exp\<close> come from two calls of \<open>time.time()\<close>: with the readings
  1000 and 1001 and a lifetime of 3600, \<open>exp - iat\<close> is 3601.
\<close>

theorem id_token_payload_counterexample:
  "(case authorize test_library test_provider id_token_request ''user1'' reserved_extra_claims
           start of
      (Inr r, w) \<Rightarrow>
        (case resp_id_token r of
           Some t \<Rightarrow> jws_payload t ''nonce'' = Some (JStr ''n'')
                  \<and> jws_payload t ''c_hash'' = Some (JStr ''h'')
                  \<and> jws_payload t ''at_hash'' = Some (JStr ''h'')
                  \<and> jws_payload t ''iat'' = Some (JNum 1000)
                  \<and> jws_payload t ''exp'' = Some (JNum 4601)
                  \<and> resp_code r = None \<and> resp_access_token r = None
         | None \<Rightarrow> False)
    | (Inl e, w) \<Rightarrow> False)
   \<and> nonce id_token_request = None
   \<and> id_token_lifetime test_provider = 3600"
  by (simp add: authorize_run_defs id_token_request_def reserved_extra_claims_def)

text \<open>
  C1, amended.  For every ID Token issued, by \<open>authorize\<close> or by the authorization-code
  exchange, the signed message is the \<open>IdToken\<close> message that the library builds from
  keyword arguments in which \<open>iss\<close> is the configured issuer, \<open>aud\<close> is the \<open>client_id\<close> of
  the (original) authentication request, \<open>iat\<close> is the reading of the clock, and \<open>exp\<close> is
  \<open>iat\<close> plus the configured \<open>id_token_lifetime\<close> whenever the two readings of the clock
  agree.  The \<open>nonce\<close> of the request is set on the message iff the request carried a
  non-empty nonce; apart from that, \<open>nonce\<close> is among the keyword arguments iff the user
  claims or extra claims merged into them have a \<open>nonce\<close>.  \<open>c_hash\<close> is among the keyword
  arguments iff a non-empty authorization code was issued together with the token (never
  in the code exchange) or the merged claims have a \<open>c_hash\<close>; \<open>at_hash\<close> iff a non-empty
  access token was issued together with it or the merged claims have an \<open>at_hash\<close>.
\<close>

theorem id_token_payload:
  "(authorize lib p req uid extra w = (Inr resp, w') \<and> resp_id_token resp = Some tok
    \<longrightarrow> (\<exists>cid iss ex rc kwargs msg.
           client_id req = Some cid \<and> issuer (configuration_information p) = Some iss
         \<and> resolve_extra_id_token_claims extra uid req = Inr ex
         \<and> id_token_message lib kwargs = Inr msg
         \<and> (case nonce req of
               None \<Rightarrow> Inr msg
             | Some n \<Rightarrow> if n \<noteq> [] then message_setitem lib msg ''nonce'' (JStr n) else Inr msg)
             = Inr (jws_payload tok)
         \<and> kwargs ''iss'' = Some (JStr iss)
         \<and> kwargs ''aud'' = Some (JStr cid)
         \<and> kwargs ''iat'' = Some (JNum (time_time lib (clock_reads w)))
         \<and> (time_time lib (Suc (clock_reads w)) = time_time lib (clock_reads w)
              \<longrightarrow> kwargs ''exp''
                    = Some (JNum (time_time lib (clock_reads w) + real_of_int (id_token_lifetime p))))
         \<and> ((kwargs ''nonce'' \<noteq> None) = ((get_claims_for p uid rc ++ ex) ''nonce'' \<noteq> None))
         \<and> ((kwargs ''c_hash'' \<noteq> None) = (truthy_str (resp_code resp) \<or> (get_claims_for p uid rc ++ ex) ''c_hash'' \<noteq> None))
         \<and> ((kwargs ''at_hash'' \<noteq> None) = (truthy_str (resp_access_token resp)
                 \<or> (get_claims_for p uid rc ++ ex) ''at_hash'' \<noteq> None))))
   \<and> (do_code_exchange lib p params extra w = (Inr resp', w'')
    \<longrightarrow> (\<exists>tok' code ar sa cid iss user_id ex rc kwargs msg.
           resp_id_token resp' = Some tok'
         \<and> token_request_from_dict lib params ''code'' = Some code
         \<and> get_authorization_request_for_code (authz_state p) code (authz_store w) = (Inr ar, sa)
         \<and> client_id ar = Some cid \<and> issuer (configuration_information p) = Some iss
         \<and> resolve_extra_id_token_claims extra user_id ar = Inr ex
         \<and> resp_code resp' = None
         \<and> id_token_message lib kwargs = Inr msg
         \<and> (case nonce ar of
               None \<Rightarrow> Inr msg
             | Some n \<Rightarrow> if n \<noteq> [] then message_setitem lib msg ''nonce'' (JStr n) else Inr msg)
             = Inr (jws_payload tok')
         \<and> kwargs ''iss'' = Some (JStr iss)
         \<and> kwargs ''aud'' = Some (JStr cid)
         \<and> kwargs ''iat'' = Some (JNum (time_time lib (clock_reads w)))
         \<and> (time_time lib (Suc (clock_reads w)) = time_time lib (clock_reads w)
              \<longrightarrow> kwargs ''exp''
                    = Some (JNum (time_time lib (clock_reads w) + real_of_int (id_token_lifetime p))))
         \<and> ((kwargs ''nonce'' \<noteq> None) = ((get_claims_for p user_id rc ++ ex) ''nonce'' \<noteq> None))
         \<and> ((kwargs ''c_hash'' \<noteq> None) = ((get_claims_for p user_id rc ++ ex) ''c_hash'' \<noteq> None))
         \<and> ((kwargs ''at_hash'' \<noteq> None) = (truthy_str (resp_access_token resp')
                 \<or> (get_claims_for p user_id rc ++ ex) ''at_hash'' \<noteq> None))))"
proof (intro conjI impI)
  assume h: "authorize lib p req uid extra w = (Inr resp, w') \<and> resp_id_token resp = Some tok"
  from authorize_id_token[OF h[THEN conjunct1] h[THEN conjunct2]]
  obtain cid sub rc ex wa wb where
    a: "client_id req = Some cid" "resolve_extra_id_token_claims extra uid req = Inr ex"
       "clock_reads wa = clock_reads w"
    and s: "create_signed_id_token lib p cid sub (get_claims_for p uid rc) (nonce req)
               (resp_code resp) (resp_access_token resp) ex wa = (Inr tok, wb)"
    by (elim exE conjE)
  from create_signed_id_token_message[OF s] a
  show "\<exists>cid iss ex rc kwargs msg.
           client_id req = Some cid \<and> issuer (configuration_information p) = Some iss
         \<and> resolve_extra_id_token_claims extra uid req = Inr ex
         \<and> id_token_message lib kwargs = Inr msg
         \<and> (case nonce req of
               None \<Rightarrow> Inr msg
             | Some n \<Rightarrow> if n \<noteq> [] then message_setitem lib msg ''nonce'' (JStr n) else Inr msg)
             = Inr (jws_payload tok)
         \<and> kwargs ''iss'' = Some (JStr iss)
         \<and> kwargs ''aud'' = Some (JStr cid)
         \<and> kwargs ''iat'' = Some (JNum (time_time lib (clock_reads w)))
         \<and> (time_time lib (Suc (clock_reads w)) = time_time lib (clock_reads w)
              \<longrightarrow> kwargs ''exp''
                    = Some (JNum (time_time lib (clock_reads w) + real_of_int (id_token_lifetime p))))
         \<and> ((kwargs ''nonce'' \<noteq> None) = ((get_claims_for p uid rc ++ ex) ''nonce'' \<noteq> None))
         \<and> ((kwargs ''c_hash'' \<noteq> None) = (truthy_str (resp_code resp) \<or> (get_claims_for p uid rc ++ ex) ''c_hash'' \<noteq> None))
         \<and> ((kwargs ''at_hash'' \<noteq> None) = (truthy_str (resp_access_token resp)
                 \<or> (get_claims_for p uid rc ++ ex) ''at_hash'' \<noteq> None))"
    apply (elim exE conjE)
    apply (rule exI[where x = cid], rule exI, rule exI[where x = ex], rule exI[where x = rc],
        rule exI, rule exI)
    apply (rule conjI, assumption)
    apply (rule conjI, assumption)
    apply (rule conjI, assumption)
    apply (rule conjI, assumption)
    apply simp
    done
next
  assume "do_code_exchange lib p params extra w = (Inr resp', w'')"
  from do_code_exchange_Inr[OF this] obtain code ar sa where
    c: "token_request_from_dict lib params ''code'' = Some code"
       "get_authorization_request_for_code (authz_state p) code (authz_store w) = (Inr ar, sa)"
    and r: "do_code_exchange_rest lib p code ar extra (w\<lparr>authz_store := sa\<rparr>) = (Inr resp', w'')"
    by (elim exE conjE)
  from do_code_exchange_rest_id_token[OF r] obtain tok' cid sub user_id rc ex a wa wb where
    b: "resp_id_token resp' = Some tok'" "client_id ar = Some cid"
       "resolve_extra_id_token_claims extra user_id ar = Inr ex"
       "clock_reads wa = clock_reads w" "resp_code resp' = None" "resp_access_token resp' = Some a"
    and s: "create_signed_id_token lib p cid sub (get_claims_for p user_id rc) (nonce ar)
               None (Some a) ex wa = (Inr tok', wb)"
    by (elim exE conjE) simp
  from create_signed_id_token_message[OF s] b c
  show "\<exists>tok' code ar sa cid iss user_id ex rc kwargs msg.
           resp_id_token resp' = Some tok'
         \<and> token_request_from_dict lib params ''code'' = Some code
         \<and> get_authorization_request_for_code (authz_state p) code (authz_store w) = (Inr ar, sa)
         \<and> client_id ar = Some cid \<and> issuer (configuration_information p) = Some iss
         \<and> resolve_extra_id_token_claims extra user_id ar = Inr ex
         \<and> resp_code resp' = None
         \<and> id_token_message lib kwargs = Inr msg
         \<and> (case nonce ar of
               None \<Rightarrow> Inr msg
             | Some n \<Rightarrow> if n \<noteq> [] then message_setitem lib msg ''nonce'' (JStr n) else Inr msg)
             = Inr (jws_payload tok')
         \<and> kwargs ''iss'' = Some (JStr iss)
         \<and> kwargs ''aud'' = Some (JStr cid)
         \<and> kwargs ''iat'' = Some (JNum (time_time lib (clock_reads w)))
         \<and> (time_time lib (Suc (clock_reads w)) = time_time lib (clock_reads w)
              \<longrightarrow> kwargs ''exp''
                    = Some (JNum (time_time lib (clock_reads w) + real_of_int (id_token_lifetime p))))
         \<and> ((kwargs ''nonce'' \<noteq> None) = ((get_claims_for p user_id rc ++ ex) ''nonce'' \<noteq> None))
         \<and> ((kwargs ''c_hash'' \<noteq> None) = ((get_claims_for p user_id rc ++ ex) ''c_hash'' \<noteq> None))
         \<and> ((kwargs ''at_hash'' \<noteq> None) = (truthy_str (resp_access_token resp')
                 \<or> (get_claims_for p user_id rc ++ ex) ''at_hash'' \<noteq> None))"
    apply (elim exE conjE)
    apply (rule exI[where x = tok'], rule exI[where x = code], rule exI[where x = ar],
        rule exI[where x = sa], rule exI[where x = cid], rule exI,
        rule exI[where x = user_id], rule exI[where x = ex], rule exI[where x = rc],
        rule exI, rule exI)
    apply (rule conjI, assumption)+
    apply simp
    done
qed

text \<open>The hybrid flow with a nonce, and the exchange of the code \<open>c\<close>, on a clock that
  stands still.\<close>

theorem id_token_payload_witness:
  "(\<exists>resp w' tok kwargs msg.
      authorize steady_library test_provider hybrid_request ''user1'' NoExtraClaims start
        = (Inr resp, w')
    \<and> resp_id_token resp = Some tok
    \<and> resp_code resp = Some ''c'' \<and> resp_access_token resp = None
    \<and> id_token_message steady_library kwargs = Inr msg
    \<and> jws_payload tok = msg(''nonce'' \<mapsto> JStr ''n1'')
    \<and> kwargs ''iss'' = Some (JStr ''https://op.example.com'')
    \<and> kwargs ''aud'' = Some (JStr ''c1'')
    \<and> kwargs ''iat'' = Some (JNum 1000)
    \<and> kwargs ''exp'' = Some (JNum 4600)
    \<and> kwargs ''nonce'' = None
    \<and> kwargs ''c_hash'' \<noteq> None
    \<and> kwargs ''at_hash'' = None)
   \<and> (\<exists>resp w' tok kwargs.
      do_code_exchange steady_library test_provider good_token_request NoExtraClaims
        store_with_code = (Inr resp, w')
    \<and> resp_id_token resp = Some tok
    \<and> resp_access_token resp = Some ''t''
    \<and> id_token_message steady_library kwargs = Inr (jws_payload tok)
    \<and> kwargs ''iss'' = Some (JStr ''https://op.example.com'')
    \<and> kwargs ''aud'' = Some (JStr ''c1'')
    \<and> kwargs ''exp'' = Some (JNum 4600)
    \<and> kwargs ''nonce'' = None
    \<and> kwargs ''c_hash'' = None
    \<and> kwargs ''at_hash'' \<noteq> None)"
proof (intro conjI)
  have gc: "get_claims_for test_provider = test_userinfo"
    by (simp add: test_provider_def Provider_def)
  have conf: "issuer (configuration_information test_provider) = Some ''https://op.example.com''"
    "id_token_lifetime test_provider = 3600"
    by (simp_all add: test_provider_def Provider_def)
  have steady: "time_time steady_library n = 1000" for n
    by (simp add: steady_library_def)
  have setitem: "message_setitem steady_library m k v = Inr (m(k \<mapsto> v))" for m k v
    by (simp add: steady_library_def test_library_def)
  from hybrid_run obtain resp w' tok where
    run: "authorize steady_library test_provider hybrid_request ''user1'' NoExtraClaims start
            = (Inr resp, w')"
    and tok: "resp_id_token resp = Some tok"
    and resp: "resp_code resp = Some ''c''" "resp_access_token resp = None"
    by (auto split: prod.splits sum.splits option.splits)
  from id_token_payload[THEN conjunct1, rule_format, OF conjI[OF run tok]]
  obtain cid iss ex rc kwargs msg where
    f: "client_id hybrid_request = Some cid"
       "issuer (configuration_information test_provider) = Some iss"
       "resolve_extra_id_token_claims NoExtraClaims ''user1'' hybrid_request = Inr ex"
       "id_token_message steady_library kwargs = Inr msg"
       "(case nonce hybrid_request of
           None \<Rightarrow> Inr msg
         | Some n \<Rightarrow> if n \<noteq> [] then message_setitem steady_library msg ''nonce'' (JStr n)
                     else Inr msg)
          = Inr (jws_payload tok)"
       "kwargs ''iss'' = Some (JStr iss)"
       "kwargs ''aud'' = Some (JStr cid)"
       "kwargs ''iat'' = Some (JNum (time_time steady_library (clock_reads start)))"
       "time_time steady_library (Suc (clock_reads start)) = time_time steady_library (clock_reads start)
          \<longrightarrow> kwargs ''exp''
                = Some (JNum (time_time steady_library (clock_reads start)
                              + real_of_int (id_token_lifetime test_provider)))"
       "(kwargs ''nonce'' \<noteq> None)
          = ((get_claims_for test_provider ''user1'' rc ++ ex) ''nonce'' \<noteq> None)"
       "(kwargs ''c_hash'' \<noteq> None)
          = (truthy_str (resp_code resp)
             \<or> (get_claims_for test_provider ''user1'' rc ++ ex) ''c_hash'' \<noteq> None)"
       "(kwargs ''at_hash'' \<noteq> None)
          = (truthy_str (resp_access_token resp)
             \<or> (get_claims_for test_provider ''user1'' rc ++ ex) ''at_hash'' \<noteq> None)"
    by (elim exE conjE)
  have ex: "ex = Map.empty"
    using f(3) by (simp add: resolve_extra_id_token_claims_def)
  have cid: "cid = ''c1''" "nonce hybrid_request = Some ''n1''"
    using f(1) by (simp_all add: hybrid_request_def code_request_def empty_request_def)
  from f conf steady setitem ex cid resp test_userinfo_reserved[of "''user1''" rc]
  have "jws_payload tok = msg(''nonce'' \<mapsto> JStr ''n1'')
    \<and> kwargs ''iss'' = Some (JStr ''https://op.example.com'')
    \<and> kwargs ''aud'' = Some (JStr ''c1'')
    \<and> kwargs ''iat'' = Some (JNum 1000)
    \<and> kwargs ''exp'' = Some (JNum 4600)
    \<and> kwargs ''nonce'' = None
    \<and> kwargs ''c_hash'' \<noteq> None
    \<and> kwargs ''at_hash'' = None"
    by (simp add: gc)
  with run tok resp f(4)
  show "\<exists>resp w' tok kwargs msg.
      authorize steady_library test_provider hybrid_request ''user1'' NoExtraClaims start
        = (Inr resp, w')
    \<and> resp_id_token resp = Some tok
    \<and> resp_code resp = Some ''c'' \<and> resp_access_token resp = None
    \<and> id_token_message steady_library kwargs = Inr msg
    \<and> jws_payload tok = msg(''nonce'' \<mapsto> JStr ''n1'')
    \<and> kwargs ''iss'' = Some (JStr ''https://op.example.com'')
    \<and> kwargs ''aud'' = Some (JStr ''c1'')
    \<and> kwargs ''iat'' = Some (JNum 1000)
    \<and> kwargs ''exp'' = Some (JNum 4600)
    \<and> kwargs ''nonce'' = None
    \<and> kwargs ''c_hash'' \<noteq> None
    \<and> kwargs ''at_hash'' = None"
    by blast
  from exchange_run obtain xresp xw where
    xrun: "do_code_exchange steady_library test_provider good_token_request NoExtraClaims
             store_with_code = (Inr xresp, xw)"
    and xat: "resp_access_token xresp = Some ''t''"
    by (auto split: prod.splits sum.splits)
  from id_token_payload[THEN conjunct2, rule_format, OF xrun]
  obtain xtok code ar sa xcid xiss user_id xex xrc xkwargs xmsg where
    g: "resp_id_token xresp = Some xtok"
       "token_request_from_dict steady_library good_token_request ''code'' = Some code"
       "get_authorization_request_for_code (authz_state test_provider) code
          (authz_store store_with_code) = (Inr ar, sa)"
       "client_id ar = Some xcid"
       "issuer (configuration_information test_provider) = Some xiss"
       "resolve_extra_id_token_claims NoExtraClaims user_id ar = Inr xex"
       "id_token_message steady_library xkwargs = Inr xmsg"
       "(case nonce ar of
           None \<Rightarrow> Inr xmsg
         | Some n \<Rightarrow> if n \<noteq> [] then message_setitem steady_library xmsg ''nonce'' (JStr n)
                     else Inr xmsg)
          = Inr (jws_payload xtok)"
       "xkwargs ''iss'' = Some (JStr xiss)"
       "xkwargs ''aud'' = Some (JStr xcid)"
       "time_time steady_library (Suc (clock_reads store_with_code))
          = time_time steady_library (clock_reads store_with_code)
          \<longrightarrow> xkwargs ''exp''
                = Some (JNum (time_time steady_library (clock_reads store_with_code)
                              + real_of_int (id_token_lifetime test_provider)))"
       "(xkwargs ''nonce'' \<noteq> None)
          = ((get_claims_for test_provider user_id xrc ++ xex) ''nonce'' \<noteq> None)"
       "(xkwargs ''c_hash'' \<noteq> None)
          = ((get_claims_for test_provider user_id xrc ++ xex) ''c_hash'' \<noteq> None)"
       "(xkwargs ''at_hash'' \<noteq> None)
          = (truthy_str (resp_access_token xresp)
             \<or> (get_claims_for test_provider user_id xrc ++ xex) ''at_hash'' \<noteq> None)"
    by (elim exE conjE)
  have code: "code = ''c''"
    using g(2) by (simp add: steady_library_def test_library_def good_token_request_def)
  have ar: "ar = code_request"
    using g(3) unfolding code by (simp add: run_defs)
  have xex: "xex = Map.empty"
    using g(6) by (simp add: resolve_extra_id_token_claims_def)
  have xcid: "xcid = ''c1''" "nonce ar = None"
    using g(4) unfolding ar by (simp_all add: code_request_def empty_request_def)
  from g conf steady xex xcid xat test_userinfo_reserved[of user_id xrc]
  have "id_token_message steady_library xkwargs = Inr (jws_payload xtok)
    \<and> xkwargs ''iss'' = Some (JStr ''https://op.example.com'')
    \<and> xkwargs ''aud'' = Some (JStr ''c1'')
    \<and> xkwargs ''exp'' = Some (JNum 4600)
    \<and> xkwargs ''nonce'' = None
    \<and> xkwargs ''c_hash'' = None
    \<and> xkwargs ''at_hash'' \<noteq> None"
    by (simp add: gc)
  with xrun g(1) xat
  show "\<exists>resp w' tok kwargs.
      do_code_exchange steady_library test_provider good_token_request NoExtraClaims
        store_with_code = (Inr resp, w')
    \<and> resp_id_token resp = Some tok
    \<and> resp_access_token resp = Some ''t''
    \<and> id_token_message steady_library kwargs = Inr (jws_payload tok)
    \<and> kwargs ''iss'' = Some (JStr ''https://op.example.com'')
    \<and> kwargs ''aud'' = Some (JStr ''c1'')
    \<and> kwargs ''exp'' = Some (JNum 4600)
    \<and> kwargs ''nonce'' = None
    \<and> kwargs ''c_hash'' = None
    \<and> kwargs ''at_hash'' \<noteq> None"
    by blast
qed

subsection \<open>The requested subject identifier\<close>

text \<open>Whenever \<open>claims.id_token.sub\<close> is a non-empty object, such as \<open>{"value": "X"}\<close>,
  the check raises, whatever the derived subject identifier is: a string never equals an
  object.\<close>

lemma check_subject_identifier_object_raises:
  "claims req = Some c \<Longrightarrow> cr_id_token c = Some d \<Longrightarrow> d ''sub'' = Some (JObj (kv # kvs))
   \<Longrightarrow> \<exists>m a. check_subject_identifier_matches_requested req sub = Inl (AuthorizationError m a)"
  by (simp add: check_subject_identifier_matches_requested_def dict_get_def py_or_def Let_def)

text \<open>
  C4.  The claim holds that \<open>authorize\<close> does not raise \<open>AuthorizationError\<close> when the
  requested \<open>sub\<close> value equals the derived subject identifier.  The code compares the
  derived subject identifier, a string, with the whole entry \<open>claims.id_token.sub\<close>, the
  object \<open>{"value": ...}\<close>: for the user \<open>user1\<close> and the client \<open>c1\<close> the derived
  identifier is \<open>pairwise:user1@rp\<close>, the request asks for exactly that value, and
  \<open>authorize\<close> raises \<open>AuthorizationError\<close>.
\<close>

theorem authorize_matching_requested_sub_raises:
  "fst (create_subject_identifier test_library test_provider ''user1'' ''c1'' ''https://rp/cb'' start)
     = Inr ''pairwise:user1@rp''
   \<and> fst (authorize test_library test_provider matching_sub_request ''user1'' NoExtraClaims start)
     = Inl (AuthorizationError
              (''Requested subject identifier '' @ quoted ''{}'' @ '' could not be matched'')
              [JObj [(''value'', JStr ''pairwise:user1@rp'')]])"
  by (simp add: authorize_run_defs matching_sub_request_def id_token_request_def dict_get_def
      py_or_def)

end
